theory Spec2Isabelle
  imports Main "HOL-Library.Word"
begin

unbundle bit_operations_syntax

section \<open>Flow policies\<close>

text \<open>
  The \<open>policy\<close> package is not among the sources. Its types are taken from the way the
  sources use them: \<open>policy.FlowPolicy{Action, ObserveAction, PolicyID, ServiceID}\<close>,
  the actions \<open>policy.Accept\<close> and \<open>policy.Reject\<close>, the observe actions
  \<open>policy.ObserveNone\<close>, and the tests \<open>Accepted()\<close>, \<open>Rejected()\<close> and \<open>ObserveApply()\<close>.
  A Go \<open>*policy.FlowPolicy\<close> that may be nil is a \<open>FlowPolicy option\<close>.
\<close>

type_synonym error = string

datatype ActionType = Accept | Reject | Continue

datatype ObserveActionType = ObserveNone | ObserveContinue | ObserveApply

record FlowPolicy =
  Action :: ActionType
  ObserveAction :: ObserveActionType
  PolicyID :: string
  ServiceID :: string

definition Accepted :: "ActionType \<Rightarrow> bool" where
  "Accepted a = (a = Accept)"

definition Rejected :: "ActionType \<Rightarrow> bool" where
  "Rejected a = (a = Reject)"

definition IsObserveApply :: "ObserveActionType \<Rightarrow> bool" where
  "IsObserveApply ob = (ob = ObserveApply)"

section \<open>The ACL cache (package acls)\<close>

text \<open>\<open>var catchAllPolicy = &policy.FlowPolicy{Action: policy.Reject, PolicyID: "default", ServiceID: "default"}\<close>;
  the observe action is the zero value.\<close>

definition catchAllPolicy :: FlowPolicy where
  "catchAllPolicy =
     \<lparr>Action = Reject, ObserveAction = ObserveNone, PolicyID = ''default'', ServiceID = ''default''\<rparr>"

text \<open>One port range of a rule with its policy (an element of \<open>portActionList\<close>).\<close>

record portAction =
  minPort :: "16 word"
  maxPort :: "16 word"
  paPolicy :: FlowPolicy

type_synonym portActionList = "portAction list"

text \<open>\<open>type prefixRules struct { mask uint32; rules map[uint32]portActionList }\<close>\<close>

record prefixRules =
  mask :: "32 word"
  rules :: "32 word \<rightharpoonup> portActionList"

text \<open>
  Modelled from the spec: the type \<open>acl\<close> and its methods \<open>getMatchingAction\<close>,
  \<open>addRule\<close> and \<open>reverseSort\<close> are not among the sources; only \<open>prefixRules\<close> and
  the callers in \<open>ACLCache\<close> are. A tier is the list of its CIDR entries in the order in
  which they are tried (mask length descending after \<open>reverseSort\<close>). The address is the
  32-bit big-endian value of the four bytes of \<open>ip\<close>.
\<close>

type_synonym acl = "prefixRules list"

text \<open>
  Modelled from the spec: the scan of one port-range list. The first range that contains
  the port yields a match, whose policy is the packet policy, and the report policy too
  unless one has been accumulated before. An observe action of kind Continue is kept as
  the report policy and never stops the scan; Apply sets report and packet.
\<close>

fun lookup :: "portActionList \<Rightarrow> 16 word \<Rightarrow> FlowPolicy option
    \<Rightarrow> FlowPolicy option \<times> FlowPolicy option \<times> error option" where
  "lookup [] port report = (report, None, Some ''No match'')"
| "lookup (pa # pas) port report =
     (if minPort pa \<le> port \<and> port \<le> maxPort pa then
        (if ObserveAction (paPolicy pa) = ObserveContinue then
           lookup pas port (case report of None \<Rightarrow> Some (paPolicy pa) | Some r \<Rightarrow> Some r)
         else
           ((case report of None \<Rightarrow> Some (paPolicy pa) | Some r \<Rightarrow> Some r),
            Some (paPolicy pa), None))
      else lookup pas port report)"

text \<open>
  Modelled from the spec: \<open>acl.getMatchingAction(ip, port, preReported)\<close>, whose
  signature is the one of the three calls in \<open>ACLCache.GetMatchingAction\<close>. Entries are
  tried in order; the first CIDR containing the address whose port-range list yields a
  match ends the search, and report policies accumulate across entries.
\<close>

fun getMatchingAction :: "acl \<Rightarrow> 32 word \<Rightarrow> 16 word \<Rightarrow> FlowPolicy option
    \<Rightarrow> FlowPolicy option \<times> FlowPolicy option \<times> error option" where
  "getMatchingAction [] ip port report = (report, None, Some ''No match'')"
| "getMatchingAction (pr # prs) ip port report =
     (case rules pr (ip AND mask pr) of
        None \<Rightarrow> getMatchingAction prs ip port report
      | Some actionList \<Rightarrow>
          (case lookup actionList port report of
             (report', packet, None) \<Rightarrow> (report', packet, None)
           | (report', packet, Some e) \<Rightarrow> getMatchingAction prs ip port report'))"

text \<open>\<open>type ACLCache struct { reject *acl; accept *acl; observe *acl }\<close>\<close>

record ACLCache =
  reject :: acl
  accept :: acl
  observe :: acl

text \<open>
  \<open>ACLCache.GetMatchingAction\<close>: the named results \<open>report\<close> and \<open>packet\<close> start
  as nil, each tier is handed the report of the tier before, and the catch-all policy
  replaces a nil result when all three tiers return an error.
\<close>

definition GetMatchingAction :: "ACLCache \<Rightarrow> 32 word \<Rightarrow> 16 word
    \<Rightarrow> FlowPolicy option \<times> FlowPolicy option \<times> error option" where
  "GetMatchingAction c ip port =
     (case getMatchingAction (reject c) ip port None of
        (report, packet, None) \<Rightarrow> (report, packet, None)
      | (report, packet, Some e1) \<Rightarrow>
     (case getMatchingAction (accept c) ip port report of
        (report, packet, None) \<Rightarrow> (report, packet, None)
      | (report, packet, Some e2) \<Rightarrow>
     (case getMatchingAction (observe c) ip port report of
        (report, packet, None) \<Rightarrow> (report, packet, None)
      | (report, packet, Some e3) \<Rightarrow>
          ((case report of None \<Rightarrow> Some catchAllPolicy | Some r \<Rightarrow> Some r),
           (case packet of None \<Rightarrow> Some catchAllPolicy | Some p \<Rightarrow> Some p),
           Some ''no match''))))"

text \<open>An entry of a tier covers \<open>(ip, port)\<close> when its CIDR contains the address and one
  of the port ranges stored for that prefix contains the port.\<close>

definition covers :: "prefixRules \<Rightarrow> 32 word \<Rightarrow> 16 word \<Rightarrow> bool" where
  "covers pr ip port =
     (case rules pr (ip AND mask pr) of
        None \<Rightarrow> False
      | Some actionList \<Rightarrow> list_ex (\<lambda>pa. minPort pa \<le> port \<and> port \<le> maxPort pa) actionList)"

text \<open>The policies an entry stores for the ranges that contain the port.\<close>

definition coveringPolicies :: "prefixRules \<Rightarrow> 32 word \<Rightarrow> 16 word \<Rightarrow> FlowPolicy list" where
  "coveringPolicies pr ip port =
     (case rules pr (ip AND mask pr) of
        None \<Rightarrow> []
      | Some actionList \<Rightarrow>
          map paPolicy (filter (\<lambda>pa. minPort pa \<le> port \<and> port \<le> maxPort pa) actionList))"

text \<open>
  The policy that decides in a tier, in the words of the specification: of the port ranges
  that contain the port and are stored under a prefix that contains the address, the first
  one, in the order of the entries and of the ranges of an entry, whose observe action is
  not Continue.
\<close>

definition matchingPolicy :: "acl \<Rightarrow> 32 word \<Rightarrow> 16 word \<Rightarrow> FlowPolicy option" where
  "matchingPolicy tier ip port =
     find (\<lambda>pol. ObserveAction pol \<noteq> ObserveContinue)
       (concat (map (\<lambda>pr. coveringPolicies pr ip port) tier))"

section \<open>Rules added to the ACL cache\<close>

text \<open>\<open>policy.IPRule\<close> as the sources build it: \<open>Address\<close>, \<open>Port\<close>, \<open>Protocol\<close> and
  \<open>Policy\<close>. The policy pointer is never nil where the sources build a rule.\<close>

record IPRule =
  Address :: string
  Port :: string
  Protocol :: string
  Policy :: FlowPolicy

text \<open>
  \<open>ACLCache.AddRule\<close>. The methods \<open>addRule\<close> and \<open>reverseSort\<close> of a tier are not
  among the sources and are parameters. The deferred function sorts the three tiers after
  the rule has gone to the tier chosen by its policy.
\<close>

definition AddRule :: "(IPRule \<Rightarrow> acl \<Rightarrow> error option \<times> acl) \<Rightarrow> (acl \<Rightarrow> acl)
    \<Rightarrow> IPRule \<Rightarrow> ACLCache \<Rightarrow> error option \<times> ACLCache" where
  "AddRule addRule reverseSort rule c =
     (let (err, c1) =
        (if IsObserveApply (ObserveAction (Policy rule)) then
           (let (e, a) = addRule rule (observe c) in (e, c\<lparr>observe := a\<rparr>))
         else if Accepted (Action (Policy rule)) then
           (let (e, a) = addRule rule (accept c) in (e, c\<lparr>accept := a\<rparr>))
         else
           (let (e, a) = addRule rule (reject c) in (e, c\<lparr>reject := a\<rparr>)))
      in (err, \<lparr>reject = reverseSort (reject c1), accept = reverseSort (accept c1),
                observe = reverseSort (observe c1)\<rparr>))"

section \<open>Strings\<close>

text \<open>\<open>strings.Split(s, sep)\<close> for a separator of one character: the pieces between the
  separators, one more than there are separators.\<close>

fun Split :: "string \<Rightarrow> char \<Rightarrow> string list" where
  "Split [] sep = [[]]"
| "Split (x # xs) sep =
     (if x = sep then [] # Split xs sep
      else (case Split xs sep of [] \<Rightarrow> [[x]] | w # ws \<Rightarrow> (x # w) # ws))"

text \<open>\<open>strconv.Itoa\<close> on a number that is not negative: its decimal digits.\<close>

definition digit :: "nat \<Rightarrow> char" where
  "digit n = ''0123456789'' ! n"

function Itoa :: "nat \<Rightarrow> string" where
  "Itoa n = (if n < 10 then [digit n] else Itoa (n div 10) @ [digit (n mod 10)])"
  by pat_completeness auto
termination
  by (relation "measure id") auto

declare Itoa.simps [simp del]

section \<open>Tag stores and claims\<close>

text \<open>
  Modelled from the spec: \<open>policy.TagStore\<close> is not among the sources. It is the ordered
  list of \<open>(key, value)\<close> claims; \<open>AppendKeyValue\<close> appends at the end and \<open>Get\<close> returns
  the value of the first claim with the key (the empty string and false when there is none).
\<close>

type_synonym TagStore = "(string \<times> string) list"

definition AppendKeyValue :: "TagStore \<Rightarrow> string \<Rightarrow> string \<Rightarrow> TagStore" where
  "AppendKeyValue tags k v = tags @ [(k, v)]"

definition Get :: "TagStore \<Rightarrow> string \<Rightarrow> string \<times> bool" where
  "Get tags k = (case map_of tags k of None \<Rightarrow> ([], False) | Some v \<Rightarrow> (v, True))"

text \<open>Modelled from the spec: \<open>enforcerconstants.PortNumberLabelString\<close> is not among the
  sources; the label of the synthetic port claim is \<open>@port\<close>.\<close>

definition PortNumberLabelString :: string where
  "PortNumberLabelString = ''@port''"

text \<open>\<open>tokens.ConnectionClaims\<close>: the sources read its tag store \<open>T\<close> only.\<close>

record ConnectionClaims =
  T :: TagStore

section \<open>Packets, connections and the datapath state\<close>

type_synonym bytes = "8 word list"

type_synonym IP = "8 word list"

text \<open>A Go function either returns or panics.\<close>

datatype 'a go = Panics | Returns 'a

datatype PacketType = PacketTypeNetwork | PacketTypeApplication

text \<open>\<open>packet.Packet\<close>: the fields the sources read.\<close>

record Packet =
  SourceAddress :: IP
  DestinationAddress :: IP
  SourcePort :: "16 word"
  DestinationPort :: "16 word"
  IPProto :: "8 word"
  IPTotalLength :: "16 word"
  Mark :: string
  Buffer :: bytes

datatype UDPFlowState =
    UDPSynStart | UDPSynSend | UDPSynReceived | UDPSynAckSent
  | UDPSynAckReceived | UDPAckReceived | UDPAckProcessed

record AuthInfo =
  LocalContext :: bytes
  RemoteContextID :: string

text \<open>
  \<open>pucontext.PUContext\<close>: the management ID, the DNS ACLs (host name to the
  comma-separated ports), the application ACLs, and the two rule searches, which are
  functions of the claims since the policy databases behind them are not among the sources.
  \<open>SearchRcvRules\<close> and \<open>SearchTxtRules\<close> return the report policy, which may be nil, and
  the packet policy.
\<close>

record PUContext =
  ManagementID :: string
  DNSACLs :: "string \<rightharpoonup> string"
  ApplicationACLs :: ACLCache
  SearchRcvRules :: "TagStore \<Rightarrow> FlowPolicy option \<times> FlowPolicy"
  SearchTxtRules :: "TagStore \<Rightarrow> bool \<Rightarrow> FlowPolicy option \<times> FlowPolicy"

text \<open>\<open>connection.UDPConnection\<close>; \<open>Context\<close> is a pointer, here the address of the
  context in the store of the datapath.\<close>

record UDPConnection =
  state :: UDPFlowState
  Context :: nat
  Auth :: AuthInfo
  PacketQueue :: "Packet list"
  ReportFlowPolicy :: "FlowPolicy option"
  PacketFlowPolicy :: "FlowPolicy option"
  ServiceConnection :: bool

text \<open>The reasons of the collector with which the sources report a rejected flow.\<close>

datatype DropReason = InvalidToken | MissingToken | PolicyDrop

text \<open>
  What the datapath does to the outside: a write to the raw socket, an update of the
  conntrack mark, a report to the collector. A report of a rejected flow carries the
  connection (nil in the SYNACK path), source and destination ID, the reason and the two
  policies, as the call of \<open>reportUDPRejectedFlow\<close> gives them. The overflow of the
  packet queue of a connection is counted: the event carries the connection and the number
  of packets dropped.
\<close>

datatype Event =
    EvWriteSocket bytes
  | EvConntrackTableUpdateMark string string "8 word" "16 word" "16 word" "32 word"
  | EvFlowRejected "nat option" string string DropReason "FlowPolicy option" "FlowPolicy option"
  | EvFlowAccepted nat string string "FlowPolicy option" "FlowPolicy option"
  | EvQueueOverflow nat nat

text \<open>
  The mutable state: the connections and contexts behind their pointers, the connection
  caches of the datapath (keyed by the flow hashes), the package variable \<open>dnsmap\<close>, and
  the events so far. Time, and with it the expiry of cache entries, is not modelled.
\<close>

record Datapath =
  conns :: "nat \<Rightarrow> UDPConnection"
  nextConn :: nat
  puContexts :: "nat \<Rightarrow> PUContext"
  udpAppOrigConnectionTracker :: "string \<rightharpoonup> nat"
  udpAppReplyConnectionTracker :: "string \<rightharpoonup> nat"
  udpNetOrigConnectionTracker :: "string \<rightharpoonup> nat"
  udpNetReplyConnectionTracker :: "string \<rightharpoonup> nat"
  udpSourcePortConnectionCache :: "string \<rightharpoonup> nat"
  udpNatConnectionTracker :: "string \<rightharpoonup> string"
  dnsmap :: "16 word \<rightharpoonup> nat"
  trace :: "Event list"

text \<open>
  The service hooks (\<open>d.service\<close>). A hook may rewrite the packet it is handed and
  answers whether processing goes on; it reads the state and the connection.
\<close>

record Service =
  PreProcessUDPNetPacket :: "Datapath \<Rightarrow> Packet \<Rightarrow> nat \<Rightarrow> bool \<times> Packet"
  PostProcessUDPNetPacket :: "Datapath \<Rightarrow> Packet \<Rightarrow> FlowPolicy option
      \<Rightarrow> ConnectionClaims option \<Rightarrow> nat \<Rightarrow> bool \<times> Packet"
  PreProcessUDPAppPacket :: "Datapath \<Rightarrow> Packet \<Rightarrow> nat \<Rightarrow> 8 word \<Rightarrow> bool \<times> Packet"
  PostProcessUDPAppPacket :: "Datapath \<Rightarrow> Packet \<Rightarrow> nat \<Rightarrow> bool \<times> Packet"

text \<open>The token accessor (\<open>d.tokenAccessor\<close>); every call may update the \<open>AuthInfo\<close> it
  is handed by pointer. \<open>ParsePacketToken\<close> may return nil claims without an error.\<close>

record TokenAccessor =
  CreateSynPacketToken :: "PUContext \<Rightarrow> AuthInfo \<Rightarrow> (error + bytes) \<times> AuthInfo"
  CreateSynAckPacketToken :: "PUContext \<Rightarrow> AuthInfo \<Rightarrow> (error + bytes) \<times> AuthInfo"
  CreateAckPacketToken :: "PUContext \<Rightarrow> AuthInfo \<Rightarrow> (error + bytes) \<times> AuthInfo"
  ParsePacketToken :: "AuthInfo \<Rightarrow> bytes \<Rightarrow> (error + ConnectionClaims option) \<times> AuthInfo"
  ParseAckToken :: "AuthInfo \<Rightarrow> bytes \<Rightarrow> error option \<times> AuthInfo"

text \<open>The constants and methods of package \<open>packet\<close> that the sources use.\<close>

record PacketLib =
  UDPSynMask :: "8 word"
  UDPSynAckMask :: "8 word"
  UDPAckMask :: "8 word"
  UDPDataPos :: nat
  IPProtocolUDP :: "8 word"
  GetUDPType :: "Packet \<Rightarrow> 8 word"
  GetUDPData :: "Packet \<Rightarrow> bytes"
  ReadUDPToken :: "Packet \<Rightarrow> bytes"
  L4FlowHash :: "Packet \<Rightarrow> string"
  L4ReverseFlowHash :: "Packet \<Rightarrow> string"
  SourcePortHash :: "Packet \<Rightarrow> PacketType \<Rightarrow> string"
  UDPTokenAttach :: "Packet \<Rightarrow> bytes \<Rightarrow> bytes \<Rightarrow> Packet"
  CreateReverseFlowPacket :: "Packet \<Rightarrow> IP \<Rightarrow> 16 word \<Rightarrow> Packet"
  FixupIPHdrOnDataModify :: "Packet \<Rightarrow> 16 word \<Rightarrow> nat \<Rightarrow> Packet"
  New :: "PacketType \<Rightarrow> bytes \<Rightarrow> string \<Rightarrow> error + Packet"

text \<open>One answer of a decoded DNS message (\<open>layers.DNSResourceRecord\<close>).\<close>

record DNSResourceRecord =
  Name :: string
  DataLength :: "16 word"
  IP :: IP

text \<open>
  Everything else the datapath is built on and the sources do not hold: the service, the
  token accessor, the packet library, the conntrack handle and the raw socket (whose
  results may depend on what happened before), the lookup of a context from an address,
  the constructor of a connection (nil when it fails), the copy of a packet that
  \<open>QueuePackets\<close> makes, the tier methods of the ACL cache, library functions of Go
  (\<open>net.IP.String\<close>, \<open>net.ParseIP\<close>, \<open>strconv.Atoi\<close>, the DNS decoder) and constants.
\<close>

record Env =
  service :: "Service option"
  tokenAccessor :: TokenAccessor
  pk :: PacketLib
  mutualAuthorization :: bool
  DefaultConnMark :: "32 word"
  DefaultEndPoint :: string
  TransmitterLabel :: string
  WriteSocket :: "Datapath \<Rightarrow> bytes \<Rightarrow> error option"
  ConntrackTableUpdateMark :: "Datapath \<Rightarrow> string \<Rightarrow> string \<Rightarrow> 8 word \<Rightarrow> 16 word
      \<Rightarrow> 16 word \<Rightarrow> 32 word \<Rightarrow> error option"
  contextFromIP :: "Datapath \<Rightarrow> bool \<Rightarrow> string \<Rightarrow> string \<Rightarrow> 16 word \<Rightarrow> 8 word \<Rightarrow> error + nat"
  NewUDPConnection :: "Datapath \<Rightarrow> nat \<Rightarrow> UDPConnection option"
  copyPacket :: "Packet \<Rightarrow> error + Packet"
  addRule :: "IPRule \<Rightarrow> acl \<Rightarrow> error option \<times> acl"
  reverseSort :: "acl \<Rightarrow> acl"
  IPString :: "IP \<Rightarrow> string"
  ParseIP :: "string \<Rightarrow> IP"
  Atoi :: "string \<Rightarrow> error + int"
  DecodeFromBytes :: "bytes \<Rightarrow> DNSResourceRecord list"
  TagStoreString :: "TagStore \<Rightarrow> string"

section \<open>Helpers of the missing packages\<close>

text \<open>
  Modelled from the spec: the cache of package \<open>cache\<close> is not among the sources;
  \<open>GetReset\<close> returns the entry under the key or an error when there is none.
\<close>

definition GetReset :: "('k \<rightharpoonup> 'v) \<Rightarrow> 'k \<Rightarrow> error + 'v" where
  "GetReset m k = (case m k of None \<Rightarrow> Inl ''not found'' | Some v \<Rightarrow> Inr v)"

text \<open>\<open>conn.SetState\<close> and the update of \<open>conn.Auth\<close> through the pointer.\<close>

definition SetState :: "nat \<Rightarrow> UDPFlowState \<Rightarrow> Datapath \<Rightarrow> Datapath" where
  "SetState c s d = d\<lparr>conns := (conns d)(c := (conns d c)\<lparr>state := s\<rparr>)\<rparr>"

definition setAuth :: "nat \<Rightarrow> AuthInfo \<Rightarrow> Datapath \<Rightarrow> Datapath" where
  "setAuth c a d = d\<lparr>conns := (conns d)(c := (conns d c)\<lparr>Auth := a\<rparr>)\<rparr>"

text \<open>Modelled from the spec: \<open>UDPConnection.DropPackets\<close> empties the packet queue.\<close>

definition DropPackets :: "nat \<Rightarrow> Datapath \<Rightarrow> Datapath" where
  "DropPackets c d = d\<lparr>conns := (conns d)(c := (conns d c)\<lparr>PacketQueue := []\<rparr>)\<rparr>"

text \<open>\<open>connection.NewUDPConnection\<close>: the new connection gets a fresh address; nil when the
  constructor fails.\<close>

definition newUDPConnection :: "Env \<Rightarrow> nat \<Rightarrow> Datapath \<Rightarrow> nat option \<times> Datapath" where
  "newUDPConnection env context d =
     (case NewUDPConnection env d context of
        None \<Rightarrow> (None, d)
      | Some conn \<Rightarrow>
          (Some (nextConn d),
           d\<lparr>conns := (conns d)(nextConn d := conn), nextConn := Suc (nextConn d)\<rparr>))"

definition emit :: "Event \<Rightarrow> Datapath \<Rightarrow> Datapath" where
  "emit ev d = d\<lparr>trace := trace d @ [ev]\<rparr>"

text \<open>
  Modelled from the spec: \<open>UDPConnection.QueuePackets\<close> is not among the sources. It
  queues a copy of the packet at the end of the packet queue of the connection, and
  returns an error when the copy cannot be made. The queue is bounded, by the 64 packets
  the specification suggests: on overflow the oldest packets are dropped and the overflow
  is counted.
\<close>

definition PacketQueueBound :: nat where
  "PacketQueueBound = 64"

definition QueuePackets :: "Env \<Rightarrow> nat \<Rightarrow> Packet \<Rightarrow> Datapath \<Rightarrow> error option \<times> Datapath" where
  "QueuePackets env c p d =
     (case copyPacket env p of
        Inl e \<Rightarrow> (Some (''Unable to copy packets to queue:'' @ e), d)
      | Inr q \<Rightarrow>
          (let queue = PacketQueue (conns d c) @ [q];
               over = length queue - PacketQueueBound;
               d1 = d\<lparr>conns := (conns d)(c := (conns d c)\<lparr>PacketQueue := drop over queue\<rparr>)\<rparr>
           in (None, if 0 < over then emit (EvQueueOverflow c over) d1 else d1)))"

text \<open>
  Modelled from the spec: \<open>reportUDPRejectedFlow\<close> and \<open>reportUDPAcceptedFlow\<close> are not
  among the sources; a call emits one report to the collector with the arguments of the call.
\<close>

definition reportUDPRejectedFlow :: "nat option \<Rightarrow> string \<Rightarrow> string \<Rightarrow> DropReason
    \<Rightarrow> FlowPolicy option \<Rightarrow> FlowPolicy option \<Rightarrow> Datapath \<Rightarrow> Datapath" where
  "reportUDPRejectedFlow conn sourceID destID mode report packet d =
     emit (EvFlowRejected conn sourceID destID mode report packet) d"

definition reportUDPAcceptedFlow :: "nat \<Rightarrow> string \<Rightarrow> string
    \<Rightarrow> FlowPolicy option \<Rightarrow> FlowPolicy option \<Rightarrow> Datapath \<Rightarrow> Datapath" where
  "reportUDPAcceptedFlow conn sourceID destID report packet d =
     emit (EvFlowAccepted conn sourceID destID report packet) d"

text \<open>A write to the raw socket and an update of the conntrack mark: the event is
  recorded and the result of the call is returned.\<close>

definition writeSocket :: "Env \<Rightarrow> bytes \<Rightarrow> Datapath \<Rightarrow> error option \<times> Datapath" where
  "writeSocket env buf d = (WriteSocket env d buf, emit (EvWriteSocket buf) d)"

definition conntrackUpdateMark :: "Env \<Rightarrow> string \<Rightarrow> string \<Rightarrow> 8 word \<Rightarrow> 16 word \<Rightarrow> 16 word
    \<Rightarrow> 32 word \<Rightarrow> Datapath \<Rightarrow> error option \<times> Datapath" where
  "conntrackUpdateMark env src dst proto sport dport mark d =
     (ConntrackTableUpdateMark env d src dst proto sport dport mark,
      emit (EvConntrackTableUpdateMark src dst proto sport dport mark) d)"

text \<open>The pattern \<open>if d.service != nil { if !d.service.Hook(...) { fail } }\<close>: without a
  service the packet goes on unchanged.\<close>

definition preNet :: "Env \<Rightarrow> Datapath \<Rightarrow> Packet \<Rightarrow> nat \<Rightarrow> bool \<times> Packet" where
  "preNet env d p c =
     (case service env of None \<Rightarrow> (True, p) | Some svc \<Rightarrow> PreProcessUDPNetPacket svc d p c)"

definition postNet :: "Env \<Rightarrow> Datapath \<Rightarrow> Packet \<Rightarrow> FlowPolicy option \<Rightarrow> ConnectionClaims option
    \<Rightarrow> nat \<Rightarrow> bool \<times> Packet" where
  "postNet env d p action claims c =
     (case service env of None \<Rightarrow> (True, p)
      | Some svc \<Rightarrow> PostProcessUDPNetPacket svc d p action claims c)"

definition preApp :: "Env \<Rightarrow> Datapath \<Rightarrow> Packet \<Rightarrow> nat \<Rightarrow> 8 word \<Rightarrow> bool \<times> Packet" where
  "preApp env d p c t =
     (case service env of None \<Rightarrow> (True, p) | Some svc \<Rightarrow> PreProcessUDPAppPacket svc d p c t)"

definition postApp :: "Env \<Rightarrow> Datapath \<Rightarrow> Packet \<Rightarrow> nat \<Rightarrow> bool \<times> Packet" where
  "postApp env d p c =
     (case service env of None \<Rightarrow> (True, p) | Some svc \<Rightarrow> PostProcessUDPAppPacket svc d p c)"

section \<open>The UDP datapath (datapath\_udp.go)\<close>

text \<open>Modelled from the spec: \<open>packet.UDPAuthMarker\<close> and \<open>packet.UDPSignatureLen\<close> are not
  among the sources; the marker has 20 bytes, the last 18 the fixed signature.\<close>

definition UDPAuthMarker :: string where
  "UDPAuthMarker = ''n30njxq7bmiwr6dtxq''"

definition CreateUDPAuthMarker :: "8 word \<Rightarrow> bytes" where
  "CreateUDPAuthMarker packetType =
     (0 OR packetType) # 0 # map (\<lambda>ch. of_nat (of_char ch)) UDPAuthMarker"

subsection \<open>Retrieving the connection\<close>

definition netSynUDPRetrieveState :: "Env \<Rightarrow> Packet \<Rightarrow> Datapath
    \<Rightarrow> nat option \<times> error option \<times> Datapath" where
  "netSynUDPRetrieveState env p d =
     (case contextFromIP env d False (IPString env (DestinationAddress p)) (Mark p)
             (DestinationPort p) (IPProtocolUDP (pk env)) of
        Inl err \<Rightarrow> (None, Some err, d)
      | Inr context \<Rightarrow> (let (conn, d1) = newUDPConnection env context d in (conn, None, d1)))"

definition netSynAckUDPRetrieveState :: "Env \<Rightarrow> Packet \<Rightarrow> Datapath \<Rightarrow> nat option \<times> error option" where
  "netSynAckUDPRetrieveState env p d =
     (case GetReset (udpSourcePortConnectionCache d) (SourcePortHash (pk env) p PacketTypeNetwork) of
        Inl err \<Rightarrow> (None, None)
      | Inr conn \<Rightarrow> (Some conn, None))"

definition netUDPAckRetrieveState :: "Env \<Rightarrow> Packet \<Rightarrow> Datapath \<Rightarrow> error + nat" where
  "netUDPAckRetrieveState env p d =
     (let hash = L4FlowHash (pk env) p in
      case GetReset (udpNetReplyConnectionTracker d) hash of
        Inr conn \<Rightarrow> Inr conn
      | Inl err1 \<Rightarrow>
          (case GetReset (udpNetOrigConnectionTracker d) hash of
             Inr conn \<Rightarrow> Inr conn
           | Inl err \<Rightarrow> Inl (''net state not found: '' @ err)))"

definition appUDPRetrieveState :: "Env \<Rightarrow> Packet \<Rightarrow> Datapath
    \<Rightarrow> nat option \<times> error option \<times> Datapath" where
  "appUDPRetrieveState env p d =
     (let hash = L4FlowHash (pk env) p in
      case GetReset (udpAppReplyConnectionTracker d) hash of
        Inr conn \<Rightarrow> (Some conn, None, d)
      | Inl err1 \<Rightarrow>
          (case GetReset (udpAppOrigConnectionTracker d) hash of
             Inr conn \<Rightarrow> (Some conn, None, d)
           | Inl err2 \<Rightarrow>
               (case contextFromIP env d True (IPString env (SourceAddress p)) (Mark p)
                       (SourcePort p) (IPProtocolUDP (pk env)) of
                  Inl err \<Rightarrow> (None, Some ''No context in app processing'', d)
                | Inr context \<Rightarrow>
                    (let (conn, d1) = newUDPConnection env context d in (conn, None, d1)))))"

subsection \<open>Handshake packets from the network\<close>

definition processNetworkUDPSynPacket :: "Env \<Rightarrow> nat \<Rightarrow> nat \<Rightarrow> Packet \<Rightarrow> Datapath
    \<Rightarrow> (FlowPolicy option \<times> ConnectionClaims option \<times> error option) \<times> Datapath" where
  "processNetworkUDPSynPacket env context c udpPacket d =
     (let (res, auth) = ParsePacketToken (tokenAccessor env) (Auth (conns d c))
                          (ReadUDPToken (pk env) udpPacket);
          d1 = setAuth c auth d;
          ctx = puContexts d1 context
      in case res of
        Inl err \<Rightarrow>
          ((None, None, Some (''UDP Syn packet dropped because of invalid token: '' @ err)),
           reportUDPRejectedFlow (Some c) (DefaultEndPoint env) (ManagementID ctx)
             InvalidToken None None d1)
      | Inr None \<Rightarrow>
          ((None, None, Some ''UDP Syn packet dropped because of no claims''),
           reportUDPRejectedFlow (Some c) (DefaultEndPoint env) (ManagementID ctx)
             InvalidToken None None d1)
      | Inr (Some claims0) \<Rightarrow>
          (let txLabel = fst (Get (T claims0) (TransmitterLabel env));
               claims = claims0\<lparr>T := AppendKeyValue (T claims0) PortNumberLabelString
                                       (Itoa (unat (DestinationPort udpPacket)))\<rparr>;
               (report, pkt) = SearchRcvRules ctx (T claims)
           in if Rejected (Action pkt) then
                ((None, None, Some (''connection rejected because of policy: ''
                                     @ TagStoreString env (T claims))),
                 reportUDPRejectedFlow (Some c) txLabel (ManagementID ctx)
                   PolicyDrop report (Some pkt) d1)
              else
                (let hash = L4FlowHash (pk env) udpPacket;
                     d2 = SetState c UDPSynReceived d1;
                     d3 = d2\<lparr>udpNetOrigConnectionTracker :=
                              (udpNetOrigConnectionTracker d2)(hash \<mapsto> c)\<rparr>;
                     d4 = d3\<lparr>udpAppReplyConnectionTracker :=
                              (udpAppReplyConnectionTracker d3)(L4ReverseFlowHash (pk env) udpPacket \<mapsto> c)\<rparr>;
                     d5 = d4\<lparr>conns := (conns d4)(c := (conns d4 c)
                              \<lparr>ReportFlowPolicy := report, PacketFlowPolicy := Some pkt\<rparr>)\<rparr>
                 in ((Some pkt, Some claims, None), d5))))"

definition processNetworkUDPSynAckPacket :: "Env \<Rightarrow> Packet \<Rightarrow> nat \<Rightarrow> nat \<Rightarrow> Datapath
    \<Rightarrow> (FlowPolicy option \<times> ConnectionClaims option \<times> error option) \<times> Datapath" where
  "processNetworkUDPSynAckPacket env udpPacket context c d =
     (let (res, auth) = ParsePacketToken (tokenAccessor env) (Auth (conns d c))
                          (ReadUDPToken (pk env) udpPacket);
          d1 = setAuth c auth d;
          ctx = puContexts d1 context
      in case res of
        Inl err \<Rightarrow>
          ((None, None, Some (''SynAck packet dropped because of bad claims: '' @ err)),
           reportUDPRejectedFlow None (DefaultEndPoint env) (ManagementID ctx)
             MissingToken None None d1)
      | Inr None \<Rightarrow>
          ((None, None, Some ''SynAck packet dropped because of no claims''),
           reportUDPRejectedFlow None (DefaultEndPoint env) (ManagementID ctx)
             MissingToken None None d1)
      | Inr (Some claims) \<Rightarrow>
          (let (report, pkt) = SearchTxtRules ctx (T claims) (\<not> mutualAuthorization env)
           in if Rejected (Action pkt) then
                ((None, None, Some (''dropping because of reject rule on transmitter: ''
                                     @ TagStoreString env (T claims))),
                 reportUDPRejectedFlow (Some c) (ManagementID ctx)
                   (RemoteContextID (Auth (conns d1 c))) PolicyDrop report (Some pkt) d1)
              else
                (let d2 = SetState c UDPSynAckReceived d1;
                     d3 = d2\<lparr>udpNetReplyConnectionTracker :=
                              (udpNetReplyConnectionTracker d2)(L4FlowHash (pk env) udpPacket \<mapsto> c)\<rparr>
                 in ((Some pkt, Some claims, None), d3))))"

definition processNetworkUDPAckPacket :: "Env \<Rightarrow> Packet \<Rightarrow> nat \<Rightarrow> nat \<Rightarrow> Datapath
    \<Rightarrow> (FlowPolicy option \<times> ConnectionClaims option \<times> error option) \<times> Datapath" where
  "processNetworkUDPAckPacket env udpPacket context c d =
     (let (perr, auth) = ParseAckToken (tokenAccessor env) (Auth (conns d c))
                           (ReadUDPToken (pk env) udpPacket);
          d1 = setAuth c auth d;
          ctx = puContexts d1 context
      in case perr of
        Some err \<Rightarrow>
          ((None, None, Some (''ack packet dropped because signature validation failed: '' @ err)),
           reportUDPRejectedFlow (Some c) (RemoteContextID (Auth (conns d1 c))) (ManagementID ctx)
             PolicyDrop (ReportFlowPolicy (conns d1 c)) (PacketFlowPolicy (conns d1 c)) d1)
      | None \<Rightarrow>
          (let d2 = SetState c UDPAckReceived d1;
               d3 = (if \<not> ServiceConnection (conns d2 c) then
                       snd (conntrackUpdateMark env
                              (IPString env (DestinationAddress udpPacket))
                              (IPString env (SourceAddress udpPacket))
                              (IPProto udpPacket) (DestinationPort udpPacket) (SourcePort udpPacket)
                              (DefaultConnMark env) d2)
                     else d2);
               d4 = reportUDPAcceptedFlow c (RemoteContextID (Auth (conns d3 c))) (ManagementID ctx)
                      (ReportFlowPolicy (conns d3 c)) (PacketFlowPolicy (conns d3 c)) d3
           in ((None, None, None), d4)))"

subsection \<open>Sending the handshake packets\<close>

definition sendUDPSynAckPacket :: "Env \<Rightarrow> Packet \<Rightarrow> nat \<Rightarrow> nat \<Rightarrow> Datapath
    \<Rightarrow> error option \<times> Datapath" where
  "sendUDPSynAckPacket env udpPacket context c d =
     (case preApp env d udpPacket c (UDPSynAckMask (pk env)) of
        (False, p0) \<Rightarrow> (Some ''pre service processing failed for application packet'', d)
      | (True, p0) \<Rightarrow>
          (let udpOptions = CreateUDPAuthMarker (UDPSynAckMask (pk env));
               (tok, auth) = CreateSynAckPacketToken (tokenAccessor env) (puContexts d context)
                               (Auth (conns d c));
               d1 = setAuth c auth d
           in case tok of
             Inl err \<Rightarrow> (Some err, d1)
           | Inr udpData \<Rightarrow>
               (let p1 = CreateReverseFlowPacket (pk env) p0 (SourceAddress p0) (SourcePort p0);
                    d2 = SetState c UDPSynAckSent d1;
                    p2 = UDPTokenAttach (pk env) p1 udpOptions udpData
                in case postApp env d2 p2 c of
                  (False, p3) \<Rightarrow>
                    (Some ''post service processing failed for application packet'', d2)
                | (True, p3) \<Rightarrow> (None, snd (writeSocket env (Buffer p3) d2)))))"

text \<open>
  The loop \<open>for _, udpPacket := range conn.PacketQueue\<close> of \<open>sendUDPAckPacket\<close>: the
  packets still to go, the index of the first of them in the queue, and the \<open>err\<close> so far.
  The hook works on the queued packet itself, so what it rewrites stays in the queue.
\<close>

fun transmitQueued :: "Env \<Rightarrow> nat \<Rightarrow> Packet list \<Rightarrow> nat \<Rightarrow> error option \<Rightarrow> Datapath
    \<Rightarrow> error option \<times> Datapath" where
  "transmitQueued env c [] i err d = (err, d)"
| "transmitQueued env c (udpPacket # rest) i err d =
     (case postApp env d udpPacket c of
        (ok, p1) \<Rightarrow>
          (let d1 = d\<lparr>conns := (conns d)(c := (conns d c)
                       \<lparr>PacketQueue := (PacketQueue (conns d c))[i := p1]\<rparr>)\<rparr>
           in if \<not> ok then (Some ''Encryption failed for queued application packet'', d1)
              else (let (werr, d2) = writeSocket env (Buffer p1) d1
                    in transmitQueued env c rest (Suc i) werr d2)))"

definition sendUDPAckPacket :: "Env \<Rightarrow> Packet \<Rightarrow> nat \<Rightarrow> nat \<Rightarrow> Datapath
    \<Rightarrow> error option go \<times> Datapath" where
  "sendUDPAckPacket env udpPacket context c d =
     (let udpOptions = CreateUDPAuthMarker (UDPAckMask (pk env));
          (tok, auth) = CreateAckPacketToken (tokenAccessor env) (puContexts d context)
                          (Auth (conns d c));
          d1 = setAuth c auth d
      in case tok of
        Inl err \<Rightarrow> (Returns (Some err), d1)
      | Inr udpData \<Rightarrow>
          (case GetReset (udpNatConnectionTracker d1)
                  (SourcePortHash (pk env) udpPacket PacketTypeNetwork) of
             Inl err \<Rightarrow> (Returns (Some ''error getting actual destination''), d1)
           | Inr destIPPort \<Rightarrow>
               (case Split destIPPort CHR '':'' of
                  destIP # portString # others \<Rightarrow>
                    (case Atoi env portString of
                       Inl err \<Rightarrow> (Returns (Some ''Unable to get dest port from cache''), d1)
                     | Inr destPort \<Rightarrow>
                         (let p1 = CreateReverseFlowPacket (pk env) udpPacket
                                     (ParseIP env destIP) (word_of_int destPort);
                              p2 = UDPTokenAttach (pk env) p1 udpOptions udpData;
                              (werr, d2) = writeSocket env (Buffer p2) d1;
                              d3 = SetState c UDPAckProcessed d2;
                              (err, d4) =
                                (if \<not> ServiceConnection (conns d3 c) then
                                   conntrackUpdateMark env destIP (IPString env (SourceAddress p2))
                                     (IPProto p2) (word_of_int destPort) (SourcePort p2)
                                     (DefaultConnMark env) d3
                                 else (werr, d3));
                              (err', d5) = transmitQueued env c (PacketQueue (conns d4 c)) 0 err d4
                          in (Returns err', d5)))
                | _ \<Rightarrow> (Panics, d1))))"

subsection \<open>Dispatch of a handshake packet\<close>

definition processNetUDPPacket :: "Env \<Rightarrow> Packet \<Rightarrow> nat \<Rightarrow> nat option \<Rightarrow> Datapath
    \<Rightarrow> error option go \<times> Datapath" where
  "processNetUDPPacket env udpPacket context conn d =
     (case conn of
        None \<Rightarrow> (Returns None, d)
      | Some c \<Rightarrow>
          (let udpPacketType = GetUDPType (pk env) udpPacket in
           if udpPacketType = UDPSynMask (pk env) then
             (case processNetworkUDPSynPacket env context c udpPacket d of
                ((action, claims, Some err), d1) \<Rightarrow> (Returns (Some err), d1)
              | ((action, claims, None), d1) \<Rightarrow>
                  (case postNet env d1 udpPacket action claims c of
                     (False, p1) \<Rightarrow>
                       (Returns (Some ''post service processing failed for network packet''), d1)
                   | (True, p1) \<Rightarrow>
                       (case sendUDPSynAckPacket env p1 context c d1 of
                          (Some err, d2) \<Rightarrow> (Returns (Some err), d2)
                        | (None, d2) \<Rightarrow> (Returns None, d2))))
           else if udpPacketType = UDPAckMask (pk env) then
             (case processNetworkUDPAckPacket env udpPacket context c d of
                ((action, claims, Some err), d1) \<Rightarrow> (Returns (Some err), d1)
              | ((action, claims, None), d1) \<Rightarrow>
                  (case postNet env d1 udpPacket action claims c of
                     (False, p1) \<Rightarrow>
                       (Returns (Some ''post service processing failed for network packet''), d1)
                   | (True, p1) \<Rightarrow>
                       (Returns (Some ''Drop udp ack (net) handshake packet as it is not intended for the application''),
                        SetState c UDPAckProcessed d1)))
           else if udpPacketType = UDPSynAckMask (pk env) then
             (case processNetworkUDPSynAckPacket env udpPacket context c d of
                ((action, claims, Some err), d1) \<Rightarrow> (Returns (Some err), d1)
              | ((action, claims, None), d1) \<Rightarrow>
                  (case postNet env d1 udpPacket action claims c of
                     (False, p1) \<Rightarrow>
                       (Returns (Some ''post service processing failed for network packet''), d1)
                   | (True, p1) \<Rightarrow>
                       (case sendUDPAckPacket env p1 context c d1 of
                          (Panics, d2) \<Rightarrow> (Panics, d2)
                        | (Returns (Some err), d2) \<Rightarrow> (Returns (Some err), d2)
                        | (Returns None, d2) \<Rightarrow> (Returns None, d2))))
           else (Returns None, d)))"

subsection \<open>DNS traffic\<close>

text \<open>The rule that \<open>processDNSTraffic\<close> builds for the address of an answer and one port
  of the list.\<close>

definition dnsRule :: "string \<Rightarrow> string \<Rightarrow> IPRule" where
  "dnsRule address port =
     \<lparr>Address = address, Port = port, Protocol = ''TCP'',
      Policy = \<lparr>Action = Accept, ObserveAction = ObserveNone,
                PolicyID = ''default'', ServiceID = ''default''\<rparr>\<rparr>"

text \<open>The inner loop \<open>for _, port := range strings.Split(val.(string), ",")\<close>; an error of
  \<open>AddRule\<close> is printed and the loop goes on.\<close>

fun addPortRules :: "Env \<Rightarrow> string \<Rightarrow> string list \<Rightarrow> ACLCache \<Rightarrow> ACLCache" where
  "addPortRules env address [] acls = acls"
| "addPortRules env address (port # ports) acls =
     addPortRules env address ports
       (snd (AddRule (addRule env) (reverseSort env) (dnsRule address port) acls))"

text \<open>The outer loop \<open>for _, t := range dns.Answers\<close>, on the application ACLs of the
  context; the DNS ACLs are not changed by it.\<close>

fun addAnswerRules :: "Env \<Rightarrow> (string \<rightharpoonup> string) \<Rightarrow> DNSResourceRecord list \<Rightarrow> ACLCache \<Rightarrow> ACLCache" where
  "addAnswerRules env dnsACLs [] acls = acls"
| "addAnswerRules env dnsACLs (t # ts) acls =
     addAnswerRules env dnsACLs ts
       (if DataLength t = 4 then
          (case dnsACLs (Name t) of
             None \<Rightarrow> acls
           | Some val \<Rightarrow> addPortRules env (IPString env (IP t)) (Split val CHR '','') acls)
        else acls)"

definition processDNSTraffic :: "Env \<Rightarrow> Packet \<Rightarrow> bool \<Rightarrow> Datapath \<Rightarrow> Datapath" where
  "processDNSTraffic env p request d =
     (let answers = DecodeFromBytes env (GetUDPData (pk env) p) in
      if request then
        (case contextFromIP env d True (IPString env (SourceAddress p)) (Mark p)
                (SourcePort p) (IPProtocolUDP (pk env)) of
           Inl err \<Rightarrow> d\<lparr>dnsmap := (dnsmap d)(SourcePort p := None)\<rparr>
         | Inr context \<Rightarrow> d\<lparr>dnsmap := (dnsmap d)(SourcePort p \<mapsto> context)\<rparr>)
      else
        (case dnsmap d (DestinationPort p) of
           None \<Rightarrow> d
         | Some context \<Rightarrow>
             (let ctx = puContexts d context;
                  acls = addAnswerRules env (DNSACLs ctx) answers (ApplicationACLs ctx)
              in d\<lparr>puContexts := (puContexts d)(context := ctx\<lparr>ApplicationACLs := acls\<rparr>)\<rparr>)))"

text \<open>
  The rules a DNS response is to add, as the specification words it: for every answer that
  is an A record (\<open>DataLength\<close> 4) and whose name is a key of the DNS ACLs, and for every
  port of the comma-separated list stored under that name, one rule; in the order of the
  answers and of the ports.
\<close>

definition dnsRules_spec :: "Env \<Rightarrow> (string \<rightharpoonup> string) \<Rightarrow> DNSResourceRecord list \<Rightarrow> IPRule list" where
  "dnsRules_spec env dnsACLs answers =
     concat (map (\<lambda>t.
         case dnsACLs (Name t) of
           None \<Rightarrow> []
         | Some val \<Rightarrow>
             map (\<lambda>port.
                 \<lparr>Address = IPString env (IP t), Port = port, Protocol = ''TCP'',
                  Policy = \<lparr>Action = Accept, ObserveAction = ObserveNone,
                            PolicyID = ''default'', ServiceID = ''default''\<rparr>\<rparr>)
               (Split val CHR '',''))
       (filter (\<lambda>t. DataLength t = 4) answers))"

text \<open>Adding a list of rules to an ACL cache one by one with \<open>AddRule\<close>, errors ignored.\<close>

definition addRules :: "Env \<Rightarrow> IPRule list \<Rightarrow> ACLCache \<Rightarrow> ACLCache" where
  "addRules env rls acls =
     foldl (\<lambda>a rule. snd (AddRule (addRule env) (reverseSort env) rule a)) acls rls"

subsection \<open>Packets from the network\<close>

text \<open>
  \<open>ProcessNetworkUDPPacket\<close> from \<open>p.Print(packet.PacketStageIncoming)\<close> on. Both the
  call of the pre-service hook and the call of \<open>processNetUDPPacket\<close> read
  \<open>conn.Context\<close>, which panics when \<open>conn\<close> is nil.
\<close>

definition ProcessNetworkUDPPacket_handshake :: "Env \<Rightarrow> Packet \<Rightarrow> nat option \<Rightarrow> Datapath
    \<Rightarrow> error option go \<times> Datapath" where
  "ProcessNetworkUDPPacket_handshake env p conn d =
     (case conn of
        None \<Rightarrow> (Panics, d)
      | Some c \<Rightarrow>
          (case preNet env d p c of
             (False, p1) \<Rightarrow> (Returns (Some ''pre service processing failed for network packet''), d)
           | (True, p1) \<Rightarrow>
               (case processNetUDPPacket env p1 (Context (conns d c)) (Some c) d of
                  (Panics, d1) \<Rightarrow> (Panics, d1)
                | (Returns (Some err), d1) \<Rightarrow>
                    (Returns (Some (''packet processing failed for network packet: '' @ err)), d1)
                | (Returns None, d1) \<Rightarrow>
                    (Returns (Some ''Drop net hanshake packets (udp)''), d1))))"

definition ProcessNetworkUDPPacket :: "Env \<Rightarrow> Packet \<Rightarrow> Datapath \<Rightarrow> error option go \<times> Datapath" where
  "ProcessNetworkUDPPacket env p d =
     (if SourcePort p = 53 then (Returns None, processDNSTraffic env p False d)
      else
        (let udpPacketType = GetUDPType (pk env) p in
         if udpPacketType = UDPSynMask (pk env) then
           (case netSynUDPRetrieveState env p d of
              (conn, Some err, d1) \<Rightarrow> (Returns (Some err), d1)
            | (None, None, d1) \<Rightarrow> (Returns (Some ''Unable to create new connection''), d1)
            | (Some c, None, d1) \<Rightarrow>
                ProcessNetworkUDPPacket_handshake env p (Some c) (SetState c UDPSynReceived d1))
         else if udpPacketType = UDPSynAckMask (pk env) then
           (case netSynAckUDPRetrieveState env p d of
              (conn, Some err) \<Rightarrow>
                (Returns (Some err), (case conn of None \<Rightarrow> d | Some c \<Rightarrow> DropPackets c d))
            | (conn, None) \<Rightarrow> ProcessNetworkUDPPacket_handshake env p conn d)
         else if udpPacketType = UDPAckMask (pk env) then
           (case netUDPAckRetrieveState env p d of
              Inl err \<Rightarrow> (Returns (Some err), d)
            | Inr c \<Rightarrow> ProcessNetworkUDPPacket_handshake env p (Some c) d)
         else
           (case netUDPAckRetrieveState env p d of
              Inl err \<Rightarrow> (Returns (Some err), d)
            | Inr c \<Rightarrow>
                (case postNet env d p None None c of
                   (False, p1) \<Rightarrow>
                     (Returns (Some ''post service processing failed for network packet''), d)
                 | (True, p1) \<Rightarrow> (Returns None, d)))))"

subsection \<open>Packets from the application\<close>

text \<open>\<open>clonePacketHeaders\<close> fixes the IP header of the packet it is handed and copies the
  first \<open>UDPDataPos\<close> bytes of its buffer, which panics on a shorter buffer; the result is
  the new packet (or the error of \<open>packet.New\<close>) and the packet as it is afterwards.\<close>

definition clonePacketHeaders :: "Env \<Rightarrow> Packet \<Rightarrow> ((error + Packet) \<times> Packet) go" where
  "clonePacketHeaders env p =
     (let p1 = FixupIPHdrOnDataModify (pk env) p (IPTotalLength p) (UDPDataPos (pk env)) in
      if length (Buffer p1) < UDPDataPos (pk env) then Panics
      else Returns (New (pk env) PacketTypeApplication (take (UDPDataPos (pk env)) (Buffer p1)) (Mark p1), p1))"

definition processApplicationUDPSynPacket :: "Env \<Rightarrow> Packet \<Rightarrow> nat \<Rightarrow> nat \<Rightarrow> Datapath
    \<Rightarrow> error option go \<times> Datapath" where
  "processApplicationUDPSynPacket env udpPacket context c d =
     (case preApp env d udpPacket c (UDPSynMask (pk env)) of
        (False, p0) \<Rightarrow>
          (Returns (Some ''pre service processing failed for UDP application packet''), d)
      | (True, p0) \<Rightarrow>
          (let udpOptions = CreateUDPAuthMarker (UDPSynMask (pk env));
               (tok, auth) = CreateSynPacketToken (tokenAccessor env) (puContexts d context)
                               (Auth (conns d c));
               d1 = setAuth c auth d
           in case tok of
             Inl err \<Rightarrow> (Returns (Some err), d1)
           | Inr udpData \<Rightarrow>
               (case clonePacketHeaders env p0 of
                  Panics \<Rightarrow> (Panics, d1)
                | Returns (Inl err, p1) \<Rightarrow>
                    (Returns (Some (''Unable to clone packet: '' @ err)), d1)
                | Returns (Inr newPacket0, p1) \<Rightarrow>
                    (let newPacket = UDPTokenAttach (pk env) newPacket0 udpOptions udpData;
                         d2 = snd (writeSocket env (Buffer newPacket) d1);
                         d3 = SetState c UDPSynSend d2;
                         hash = L4FlowHash (pk env) p1;
                         d4 = d3\<lparr>udpAppOrigConnectionTracker :=
                                  (udpAppOrigConnectionTracker d3)(hash \<mapsto> c)\<rparr>;
                         d5 = d4\<lparr>udpSourcePortConnectionCache :=
                                  (udpSourcePortConnectionCache d4)
                                    (SourcePortHash (pk env) newPacket PacketTypeApplication \<mapsto> c)\<rparr>;
                         d6 = d5\<lparr>udpNatConnectionTracker :=
                                  (udpNatConnectionTracker d5)
                                    (SourcePortHash (pk env) newPacket PacketTypeApplication \<mapsto>
                                     SourcePortHash (pk env) newPacket PacketTypeNetwork)\<rparr>
                     in case postApp env d6 newPacket c of
                       (False, p2) \<Rightarrow>
                         (Returns (Some ''post service processing failed for application packet''), d6)
                     | (True, p2) \<Rightarrow> (Returns None, d6)))))"

text \<open>
  \<open>ProcessApplicationUDPPacket\<close>. \<open>conn.GetState()\<close> on a nil connection panics. The state
  of the connection is read a second time for the \<open>switch\<close>, after the packet has been
  queued.
\<close>

definition ProcessApplicationUDPPacket :: "Env \<Rightarrow> Packet \<Rightarrow> Datapath \<Rightarrow> error option go \<times> Datapath" where
  "ProcessApplicationUDPPacket env p d =
     (if DestinationPort p = 53 then (Returns None, processDNSTraffic env p True d)
      else
        (case appUDPRetrieveState env p d of
           (conn, Some err, d1) \<Rightarrow>
             (Returns (Some (''Received packet from unenforced process: '' @ err)), d1)
         | (None, None, d1) \<Rightarrow> (Panics, d1)
         | (Some c, None, d1) \<Rightarrow>
             (case (if state (conns d1 c) \<noteq> UDPAckProcessed then QueuePackets env c p d1
                    else (None, d1)) of
                (Some err, d2) \<Rightarrow> (Returns (Some (''Unable to queue packets:'' @ err)), d2)
              | (None, d2) \<Rightarrow>
                  (case state (conns d2 c) of
                     UDPSynStart \<Rightarrow>
                       (case processApplicationUDPSynPacket env p (Context (conns d2 c)) c d2 of
                          (Panics, d3) \<Rightarrow> (Panics, d3)
                        | (Returns (Some err), d3) \<Rightarrow>
                            (Returns (Some (''Unable to send UDP Syn packet: '' @ err)), d3)
                        | (Returns None, d3) \<Rightarrow>
                            (Returns (Some ''Packets cloned. Dropping the original packet''), d3))
                   | UDPAckProcessed \<Rightarrow>
                       (case postApp env d2 p c of
                          (False, p1) \<Rightarrow>
                            (Returns (Some ''Encryption failed for application packet''), d2)
                        | (True, p1) \<Rightarrow> (Returns None, d2))
                   | _ \<Rightarrow> (Returns (Some ''Packets cloned. Dropping the original packet''), d2)))))"

section \<open>The policy database (package lookup)\<close>

text \<open>
  Modelled from the spec: of package \<open>lookup\<close> the sources hold the tests
  (\<open>lookup_test.go\<close>) and not the implementation of \<open>PolicyDB\<close>. The selectors are
  the \<open>policy.TagSelector\<close> and \<open>policy.KeyValueOperator\<close> values the tests build. The
  tables are those the tests read (\<open>numberOfPolicies\<close>, \<open>equalMapTable\<close>,
  \<open>notEqualMapTable\<close>, \<open>equalPrefixes\<close>) and the specification describes. Where the
  specification and the tests differ, the model follows the tests:
  \<^item> a selector is returned as soon as the number of its matched clauses reaches its clause
    count, during the scan of the tags, and not as the smallest index among all hits
    (\<open>TestFuncSearch\<close> expects index 8 for \<open>domain=com.example.web\<close> and index 10 for
    \<open>vulnerability=high\<close>);
  \<^item> a tag that is the ID of a clause counts as one matched clause of every selector with
    that clause (\<open>TestFuncSearch\<close> expects index 6 for the tag \<open>1\<close>);
  \<^item> a \<open>KeyNotExists\<close> clause is not counted; it excludes its selector when a tag has the
    key, and a selector of this one clause is the default when nothing else matches
    (\<open>TestFuncSearch\<close> expects index 9 for \<open>sometag=nomatch\<close>).
\<close>

datatype Operator = Equal | NotEqual | KeyExists | KeyNotExists

record KeyValueOperator =
  Key :: string
  Value :: "string list"
  Operator :: Operator
  ID :: string

text \<open>\<open>policy.TagSelector{Clause, Policy}\<close>; the field \<open>Policy\<close> is \<open>SelectorPolicy\<close> here.\<close>

record TagSelector =
  Clause :: "KeyValueOperator list"
  SelectorPolicy :: FlowPolicy

text \<open>
  A policy as the tables hold it: the number of clauses to match, its index and its
  action. The tables hold pointers to one object per selector; here they hold the object
  as it is when \<open>AddPolicy\<close> returns.
\<close>

record ForwardingPolicy =
  count :: int
  index :: int
  actions :: FlowPolicy

text \<open>
  A Go map that yields the zero value for a missing key is a total function with the empty
  list there. The inner map of \<open>notEqualMapTable\<close> is ranged over by \<open>Search\<close>: it is an
  association list in the order in which the values were entered.
\<close>

record PolicyDB =
  numberOfPolicies :: int
  equalPrefixes :: "string \<Rightarrow> nat list"
  equalMapTable :: "string \<Rightarrow> string \<Rightarrow> ForwardingPolicy list"
  equalIDMapTable :: "string \<Rightarrow> ForwardingPolicy list"
  notEqualMapTable :: "string \<Rightarrow> (string \<times> ForwardingPolicy list) list"
  notStarTable :: "string \<Rightarrow> ForwardingPolicy list"
  defaultNotExistsPolicy :: "ForwardingPolicy option"

definition NewPolicyDB :: PolicyDB where
  "NewPolicyDB =
     \<lparr>numberOfPolicies = 0, equalPrefixes = (\<lambda>k. []), equalMapTable = (\<lambda>k v. []),
      equalIDMapTable = (\<lambda>t. []), notEqualMapTable = (\<lambda>k. []), notStarTable = (\<lambda>k. []),
      defaultNotExistsPolicy = None\<rparr>"

subsection \<open>AddPolicy\<close>

text \<open>The list of prefix lengths of a key is kept in descending order, each length once.\<close>

fun sortedInsert :: "nat list \<Rightarrow> nat \<Rightarrow> nat list" where
  "sortedInsert [] val = [val]"
| "sortedInsert (x # xs) val =
     (if x = val then x # xs
      else if x < val then val # x # xs
      else x # sortedInsert xs val)"

text \<open>One value of an \<open>Equal\<close> clause: a value that ends in \<open>*\<close> is entered under the
  prefix before the star, and the length of the prefix is recorded.\<close>

definition addEqualValue :: "ForwardingPolicy \<Rightarrow> string \<Rightarrow> PolicyDB \<Rightarrow> string \<Rightarrow> PolicyDB" where
  "addEqualValue e k m v =
     (if v \<noteq> [] \<and> last v = CHR ''*'' then
        m\<lparr>equalPrefixes := (equalPrefixes m)(k := sortedInsert (equalPrefixes m k) (length v - 1)),
          equalMapTable := (equalMapTable m)
            (k := (equalMapTable m k)(butlast v := equalMapTable m k (butlast v) @ [e]))\<rparr>
      else
        m\<lparr>equalMapTable := (equalMapTable m)(k := (equalMapTable m k)(v := equalMapTable m k v @ [e]))\<rparr>)"

fun appendUnder :: "string \<Rightarrow> ForwardingPolicy \<Rightarrow> (string \<times> ForwardingPolicy list) list
    \<Rightarrow> (string \<times> ForwardingPolicy list) list" where
  "appendUnder v e [] = [(v, [e])]"
| "appendUnder v e ((w, ps) # rest) =
     (if w = v then (w, ps @ [e]) # rest else (w, ps) # appendUnder v e rest)"

definition addNotEqualValue :: "ForwardingPolicy \<Rightarrow> string \<Rightarrow> PolicyDB \<Rightarrow> string \<Rightarrow> PolicyDB" where
  "addNotEqualValue e k m v =
     m\<lparr>notEqualMapTable := (notEqualMapTable m)(k := appendUnder v e (notEqualMapTable m k))\<rparr>"

text \<open>What a clause adds to the number of clauses to match: every value of a \<open>NotEqual\<close>
  clause counts, a \<open>KeyNotExists\<close> clause does not.\<close>

definition clauseCount :: "KeyValueOperator \<Rightarrow> int" where
  "clauseCount kv =
     (case Operator kv of
        KeyExists \<Rightarrow> 1
      | KeyNotExists \<Rightarrow> 0
      | Equal \<Rightarrow> 1
      | NotEqual \<Rightarrow> int (length (Value kv)))"

text \<open>The tables after one clause of a selector with \<open>n\<close> clauses.\<close>

definition addClause :: "ForwardingPolicy \<Rightarrow> nat \<Rightarrow> PolicyDB \<Rightarrow> KeyValueOperator \<Rightarrow> PolicyDB" where
  "addClause e n m kv =
     (case Operator kv of
        KeyExists \<Rightarrow>
          m\<lparr>equalPrefixes := (equalPrefixes m)(Key kv := sortedInsert (equalPrefixes m (Key kv)) 0),
            equalMapTable := (equalMapTable m)
              (Key kv := (equalMapTable m (Key kv))([] := equalMapTable m (Key kv) [] @ [e]))\<rparr>
      | KeyNotExists \<Rightarrow>
          m\<lparr>notStarTable := (notStarTable m)(Key kv := notStarTable m (Key kv) @ [e]),
            defaultNotExistsPolicy := (if n = 1 then Some e else defaultNotExistsPolicy m)\<rparr>
      | Equal \<Rightarrow>
          (let m1 = foldl (addEqualValue e (Key kv)) m (Value kv) in
           if ID kv \<noteq> [] then
             m1\<lparr>equalIDMapTable := (equalIDMapTable m1)(ID kv := equalIDMapTable m1 (ID kv) @ [e])\<rparr>
           else m1)
      | NotEqual \<Rightarrow> foldl (addNotEqualValue e (Key kv)) m (Value kv))"

text \<open>\<open>AddPolicy\<close> returns the index of the selector, which is the number of selectors
  added so far.\<close>

definition AddPolicy :: "TagSelector \<Rightarrow> PolicyDB \<Rightarrow> int \<times> PolicyDB" where
  "AddPolicy selector m =
     (let e = \<lparr>count = sum_list (map clauseCount (Clause selector)),
               index = numberOfPolicies m + 1,
               actions = SelectorPolicy selector\<rparr>;
          m1 = foldl (addClause e (length (Clause selector))) m (Clause selector)
      in (index e, m1\<lparr>numberOfPolicies := numberOfPolicies m + 1\<rparr>))"

subsection \<open>Search\<close>

text \<open>The slice of a tag store: one string \<open>key=value\<close> for each claim.\<close>

definition GetSlice :: "TagStore \<Rightarrow> string list" where
  "GetSlice tags = map (\<lambda>(k, v). k @ ''='' @ v) tags"

text \<open>A tag is split at its first \<open>=\<close>; a tag with no \<open>=\<close>, with no key or with no value
  is not a key-value tag.\<close>

definition tagSplit :: "string \<Rightarrow> (string \<times> string) option" where
  "tagSplit t =
     (let k = takeWhile (\<lambda>ch. ch \<noteq> CHR ''='') t;
          r = dropWhile (\<lambda>ch. ch \<noteq> CHR ''='') t
      in if k = [] \<or> r = [] \<or> tl r = [] then None else Some (k, tl r))"

text \<open>
  \<open>searchInMapTable\<close>: every policy of the list that is not skipped gets one more matched
  clause, and the first whose clauses are then all matched is returned; \<open>(-1, nil)\<close> when
  there is none. The counters are returned with the result.
\<close>

fun searchInMapTable :: "ForwardingPolicy list \<Rightarrow> (int \<Rightarrow> int) \<Rightarrow> (int \<Rightarrow> bool)
    \<Rightarrow> (int \<times> FlowPolicy option) \<times> (int \<Rightarrow> int)" where
  "searchInMapTable [] cnt skp = ((- 1, None), cnt)"
| "searchInMapTable (p # table) cnt skp =
     (if skp (index p) then searchInMapTable table cnt skp
      else
        (let cnt1 = cnt(index p := cnt (index p) + 1) in
         if cnt1 (index p) = count p then ((index p, Some (actions p)), cnt1)
         else searchInMapTable table cnt1 skp))"

text \<open>The prefixes of the value of a tag, longest first.\<close>

fun searchPrefixes :: "(string \<Rightarrow> ForwardingPolicy list) \<Rightarrow> string \<Rightarrow> nat list \<Rightarrow> (int \<Rightarrow> int)
    \<Rightarrow> (int \<Rightarrow> bool) \<Rightarrow> (int \<times> FlowPolicy option) \<times> (int \<Rightarrow> int)" where
  "searchPrefixes table v [] cnt skp = ((- 1, None), cnt)"
| "searchPrefixes table v (i # rest) cnt skp =
     (if i \<le> length v then
        (case searchInMapTable (table (take i v)) cnt skp of
           ((idx, action), cnt1) \<Rightarrow>
             if 0 \<le> idx then ((idx, action), cnt1)
             else searchPrefixes table v rest cnt1 skp)
      else searchPrefixes table v rest cnt skp)"

text \<open>The \<open>NotEqual\<close> entries of the key of a tag, but for the entry of the value of the tag.\<close>

fun searchNotEqual :: "(string \<times> ForwardingPolicy list) list \<Rightarrow> string \<Rightarrow> (int \<Rightarrow> int)
    \<Rightarrow> (int \<Rightarrow> bool) \<Rightarrow> (int \<times> FlowPolicy option) \<times> (int \<Rightarrow> int)" where
  "searchNotEqual [] v cnt skp = ((- 1, None), cnt)"
| "searchNotEqual ((val, ps) # rest) v cnt skp =
     (if v = val then searchNotEqual rest v cnt skp
      else
        (case searchInMapTable ps cnt skp of
           ((idx, action), cnt1) \<Rightarrow>
             if 0 \<le> idx then ((idx, action), cnt1)
             else searchNotEqual rest v cnt1 skp))"

text \<open>The policies to skip: those with a \<open>KeyNotExists\<close> clause for the key of a tag.\<close>

definition skipPolicies :: "PolicyDB \<Rightarrow> string list \<Rightarrow> int \<Rightarrow> bool" where
  "skipPolicies m tags =
     foldl (\<lambda>skp t.
         case tagSplit t of
           None \<Rightarrow> skp
         | Some (k, v) \<Rightarrow> foldl (\<lambda>s p. s(index p := True)) skp (notStarTable m k))
       (\<lambda>i. False) tags"

text \<open>
  The scan of the tags: for each tag the policies under its ID, under its exact value,
  under the prefixes of its value, and under the other values of \<open>NotEqual\<close> clauses of its
  key. The default policy is returned at the end unless it is skipped.
\<close>

fun searchTags :: "PolicyDB \<Rightarrow> string list \<Rightarrow> (int \<Rightarrow> int) \<Rightarrow> (int \<Rightarrow> bool)
    \<Rightarrow> int \<times> FlowPolicy option" where
  "searchTags m [] cnt skp =
     (case defaultNotExistsPolicy m of
        None \<Rightarrow> (- 1, None)
      | Some p \<Rightarrow> if skp (index p) then (- 1, None) else (index p, Some (actions p)))"
| "searchTags m (t # ts) cnt skp =
     (case searchInMapTable (equalIDMapTable m t) cnt skp of
        ((idx, action), cnt1) \<Rightarrow>
          if 0 \<le> idx then (idx, action)
          else
            (case tagSplit t of
               None \<Rightarrow> searchTags m ts cnt1 skp
             | Some (k, v) \<Rightarrow>
                 (case searchInMapTable (equalMapTable m k v) cnt1 skp of
                    ((idx, action), cnt2) \<Rightarrow>
                      if 0 \<le> idx then (idx, action)
                      else
                        (case searchPrefixes (equalMapTable m k) v (equalPrefixes m k) cnt2 skp of
                           ((idx, action), cnt3) \<Rightarrow>
                             if 0 \<le> idx then (idx, action)
                             else
                               (case searchNotEqual (notEqualMapTable m k) v cnt3 skp of
                                  ((idx, action), cnt4) \<Rightarrow>
                                    if 0 \<le> idx then (idx, action)
                                    else searchTags m ts cnt4 skp)))))"

definition Search :: "PolicyDB \<Rightarrow> string list \<Rightarrow> int \<times> FlowPolicy option" where
  "Search m tags = searchTags m tags (\<lambda>i. 0) (skipPolicies m tags)"

section \<open>Example inputs\<close>

text \<open>
  A concrete datapath on which the theorems below are run. The packet type is read from
  the two high bits of the first byte behind the 28 bytes of IP and UDP header; the token
  follows the 20 bytes of the marker.
\<close>

definition acceptPolicy :: FlowPolicy where
  "acceptPolicy = \<lparr>Action = Accept, ObserveAction = ObserveNone, PolicyID = ''allow'', ServiceID = ''svc''\<rparr>"

definition rejectPolicy :: FlowPolicy where
  "rejectPolicy = \<lparr>Action = Reject, ObserveAction = ObserveNone, PolicyID = ''deny'', ServiceID = ''svc''\<rparr>"

definition examplePacketLib :: PacketLib where
  "examplePacketLib =
     \<lparr>UDPSynMask = 0x40, UDPSynAckMask = 0x80, UDPAckMask = 0xC0, UDPDataPos = 28,
      IPProtocolUDP = 17,
      GetUDPType = (\<lambda>p. case drop 28 (Buffer p) of [] \<Rightarrow> 0 | b # bs \<Rightarrow> b AND 0xC0),
      GetUDPData = (\<lambda>p. drop 28 (Buffer p)),
      ReadUDPToken = (\<lambda>p. drop 48 (Buffer p)),
      L4FlowHash = (\<lambda>p. ''flow''),
      L4ReverseFlowHash = (\<lambda>p. ''reverse''),
      SourcePortHash = (\<lambda>p t. ''10.0.0.2:5000''),
      UDPTokenAttach = (\<lambda>p options token. p\<lparr>Buffer := take 28 (Buffer p) @ options @ token\<rparr>),
      CreateReverseFlowPacket = (\<lambda>p ip port.
         p\<lparr>SourceAddress := DestinationAddress p, SourcePort := DestinationPort p,
           DestinationAddress := ip, DestinationPort := port\<rparr>),
      FixupIPHdrOnDataModify = (\<lambda>p old new. p\<lparr>IPTotalLength := of_nat new\<rparr>),
      New = (\<lambda>t buf mark.
         Inr \<lparr>SourceAddress = [10, 0, 0, 2], DestinationAddress = [10, 0, 0, 1],
              SourcePort = 5000, DestinationPort = 80, IPProto = 17,
              IPTotalLength = of_nat (length buf), Mark = mark, Buffer = buf\<rparr>)\<rparr>"

text \<open>A token accessor whose parsers succeed or fail as the flag says.\<close>

definition exampleTokens :: "bool \<Rightarrow> TokenAccessor" where
  "exampleTokens valid =
     \<lparr>CreateSynPacketToken = (\<lambda>ctx a. (Inr [1], a)),
      CreateSynAckPacketToken = (\<lambda>ctx a. (Inr [2], a)),
      CreateAckPacketToken = (\<lambda>ctx a. (Inr [3], a)),
      ParsePacketToken = (\<lambda>a token.
         (if valid then Inr (Some \<lparr>T = [(''app'', ''web'')]\<rparr>) else Inl ''bad token'', a)),
      ParseAckToken = (\<lambda>a token. (if valid then None else Some ''bad signature'', a))\<rparr>"

definition exampleEnv :: "bool \<Rightarrow> Env" where
  "exampleEnv valid =
     \<lparr>service = None,
      tokenAccessor = exampleTokens valid,
      pk = examplePacketLib,
      mutualAuthorization = True,
      DefaultConnMark = 0xEEEE,
      DefaultEndPoint = ''default'',
      TransmitterLabel = ''AporetoContextID'',
      WriteSocket = (\<lambda>d buf. None),
      ConntrackTableUpdateMark = (\<lambda>d src dst proto sport dport mark. None),
      contextFromIP = (\<lambda>d app ip mark port proto. Inr 0),
      NewUDPConnection = (\<lambda>d context.
         Some \<lparr>state = UDPSynStart, Context = context,
               Auth = \<lparr>LocalContext = [], RemoteContextID = []\<rparr>, PacketQueue = [],
               ReportFlowPolicy = None, PacketFlowPolicy = None, ServiceConnection = False\<rparr>),
      copyPacket = (\<lambda>p. Inr p),
      addRule = (\<lambda>rule a. (None, a)),
      reverseSort = (\<lambda>a. a),
      IPString = (\<lambda>ip. ''10.1.2.3''),
      ParseIP = (\<lambda>s. [10, 0, 0, 2]),
      Atoi = (\<lambda>s. Inr 5000),
      DecodeFromBytes = (\<lambda>b. [\<lparr>Name = ''api.example.com'', DataLength = 4, IP = [10, 1, 2, 3]\<rparr>]),
      TagStoreString = (\<lambda>tags. concat (map (\<lambda>(k, v). k @ ''='' @ v @ '' '') tags))\<rparr>"

text \<open>A context that accepts a peer only on port 80, by the synthetic port claim.\<close>

definition exampleContext :: PUContext where
  "exampleContext =
     \<lparr>ManagementID = ''pu1'',
      DNSACLs = [''api.example.com'' \<mapsto> ''443,8443''],
      ApplicationACLs = \<lparr>reject = [], accept = [], observe = []\<rparr>,
      SearchRcvRules = (\<lambda>tags. if (''@port'', ''80'') \<in> set tags then (None, acceptPolicy)
                                else (None, rejectPolicy)),
      SearchTxtRules = (\<lambda>tags skip. (None, acceptPolicy))\<rparr>"

definition examplePacket :: "8 word \<Rightarrow> 16 word \<Rightarrow> 16 word \<Rightarrow> Packet" where
  "examplePacket t sport dport =
     \<lparr>SourceAddress = [10, 0, 0, 2], DestinationAddress = [10, 0, 0, 1],
      SourcePort = sport, DestinationPort = dport, IPProto = 17, IPTotalLength = 52,
      Mark = ''100'', Buffer = replicate 28 0 @ CreateUDPAuthMarker t @ [7, 7, 7, 7]\<rparr>"

definition exampleConnection :: "UDPFlowState \<Rightarrow> UDPConnection" where
  "exampleConnection s =
     \<lparr>state = s, Context = 0, Auth = \<lparr>LocalContext = [9], RemoteContextID = ''pu2''\<rparr>,
      PacketQueue = [examplePacket 0 5000 80\<lparr>Buffer := replicate 28 0 @ [1, 1]\<rparr>,
                     examplePacket 0 5000 80\<lparr>Buffer := replicate 28 0 @ [2, 2]\<rparr>],
      ReportFlowPolicy = None, PacketFlowPolicy = Some acceptPolicy, ServiceConnection = False\<rparr>"

text \<open>A datapath with one connection in the given state, known to none of the caches, and
  one with the same connection entered under every hash.\<close>

definition emptyDatapath :: "UDPFlowState \<Rightarrow> Datapath" where
  "emptyDatapath s =
     \<lparr>conns = (\<lambda>a. exampleConnection s), nextConn = 1, puContexts = (\<lambda>a. exampleContext),
      udpAppOrigConnectionTracker = Map.empty, udpAppReplyConnectionTracker = Map.empty,
      udpNetOrigConnectionTracker = Map.empty, udpNetReplyConnectionTracker = Map.empty,
      udpSourcePortConnectionCache = Map.empty, udpNatConnectionTracker = Map.empty,
      dnsmap = Map.empty, trace = []\<rparr>"

definition exampleDatapath :: "UDPFlowState \<Rightarrow> Datapath" where
  "exampleDatapath s =
     (emptyDatapath s)
       \<lparr>udpAppOrigConnectionTracker := [''flow'' \<mapsto> 0],
        udpNetOrigConnectionTracker := [''flow'' \<mapsto> 0],
        udpSourcePortConnectionCache := [''10.0.0.2:5000'' \<mapsto> 0],
        udpNatConnectionTracker := [''10.0.0.2:5000'' \<mapsto> ''10.0.0.2:5000''],
        dnsmap := [5000 \<mapsto> 0]\<rparr>"

text \<open>An ACL cache whose reject tier holds 10.0.0.0/24 port 80 and whose accept tier holds
  the longer prefix 10.0.0.1/32 on all ports, and one with the accept entry only.\<close>

definition exampleACLs :: ACLCache where
  "exampleACLs =
     \<lparr>reject = [\<lparr>mask = 0xFFFFFF00,
                  rules = [0x0A000000 \<mapsto> [\<lparr>minPort = 80, maxPort = 80, paPolicy = rejectPolicy\<rparr>]]\<rparr>],
      accept = [\<lparr>mask = 0xFFFFFFFF,
                  rules = [0x0A000001 \<mapsto> [\<lparr>minPort = 0, maxPort = 65535, paPolicy = acceptPolicy\<rparr>]]\<rparr>],
      observe = []\<rparr>"

text \<open>An ACL cache whose reject tier holds 10.0.0.0/24 port 80 with a policy that rejects
  and observes with Continue, under the accept entry of above.\<close>

definition observedRejectPolicy :: FlowPolicy where
  "observedRejectPolicy =
     \<lparr>Action = Reject, ObserveAction = ObserveContinue, PolicyID = ''deny'', ServiceID = ''svc''\<rparr>"

definition observedRejectEntry :: prefixRules where
  "observedRejectEntry =
     \<lparr>mask = 0xFFFFFF00,
      rules = [0x0A000000 \<mapsto> [\<lparr>minPort = 80, maxPort = 80, paPolicy = observedRejectPolicy\<rparr>]]\<rparr>"

definition observedACLs :: ACLCache where
  "observedACLs = exampleACLs\<lparr>reject := [observedRejectEntry]\<rparr>"

text \<open>
  An environment whose tiers store what \<open>AddRule\<close> hands them: \<open>addRule\<close> reads the
  address as a dotted quad and the port as one decimal number, and enters the policy under
  the host prefix at the end of the tier.
\<close>

definition decimal :: "string \<Rightarrow> nat" where
  "decimal s = foldl (\<lambda>n ch. 10 * n + (of_char ch - 48)) 0 s"

definition exampleAddRule :: "IPRule \<Rightarrow> acl \<Rightarrow> error option \<times> acl" where
  "exampleAddRule rule a =
     (None,
      a @ [\<lparr>mask = 0xFFFFFFFF,
            rules = [of_nat (foldl (\<lambda>n part. 256 * n + decimal part) 0 (Split (Address rule) CHR ''.''))
                       \<mapsto> [\<lparr>minPort = of_nat (decimal (Port rule)),
                                 maxPort = of_nat (decimal (Port rule)),
                                 paPolicy = Policy rule\<rparr>]]\<rparr>])"

definition dnsEnv :: Env where
  "dnsEnv = (exampleEnv True)\<lparr>addRule := exampleAddRule\<rparr>"

text \<open>A service whose hook for queued application packets refuses the packets with the
  payload 2, 2 and lets every other packet through unchanged, and the environment of above
  with this service.\<close>

definition exampleService :: Service where
  "exampleService =
     \<lparr>PreProcessUDPNetPacket = (\<lambda>d p c. (True, p)),
      PostProcessUDPNetPacket = (\<lambda>d p action claims c. (True, p)),
      PreProcessUDPAppPacket = (\<lambda>d p c t. (True, p)),
      PostProcessUDPAppPacket = (\<lambda>d p c. (drop 28 (Buffer p) \<noteq> [2, 2], p))\<rparr>"

definition serviceEnv :: Env where
  "serviceEnv = (exampleEnv True)\<lparr>service := Some exampleService\<rparr>"

subsection \<open>The selectors and the database of the tests (lookup\_test.go)\<close>

definition appEqWeb :: KeyValueOperator where
  "appEqWeb = \<lparr>Key = ''app'', Value = [''web''], Operator = Equal, ID = ''1''\<rparr>"

definition envEqDemo :: KeyValueOperator where
  "envEqDemo = \<lparr>Key = ''env'', Value = [''demo''], Operator = Equal, ID = ''2''\<rparr>"

definition envEqDemoOrQa :: KeyValueOperator where
  "envEqDemoOrQa = \<lparr>Key = ''env'', Value = [''demo'', ''qa''], Operator = Equal, ID = ''3''\<rparr>"

definition dcKeyExists :: KeyValueOperator where
  "dcKeyExists = \<lparr>Key = ''dc'', Value = [], Operator = KeyExists, ID = []\<rparr>"

definition langNotJava :: KeyValueOperator where
  "langNotJava = \<lparr>Key = ''lang'', Value = [''java''], Operator = NotEqual, ID = []\<rparr>"

definition envNotDemoOrQA :: KeyValueOperator where
  "envNotDemoOrQA = \<lparr>Key = ''env'', Value = [''demo'', ''qa''], Operator = NotEqual, ID = []\<rparr>"

definition envKeyNotExists :: KeyValueOperator where
  "envKeyNotExists = \<lparr>Key = ''env'', Value = [], Operator = KeyNotExists, ID = []\<rparr>"

definition vulnerKey :: KeyValueOperator where
  "vulnerKey = \<lparr>Key = ''vulnerability'', Value = [''high''], Operator = Equal, ID = []\<rparr>"

definition vulnerLowKey :: KeyValueOperator where
  "vulnerLowKey = \<lparr>Key = ''vulnerability'', Value = [''low''], Operator = Equal, ID = []\<rparr>"

definition namespaceKey :: KeyValueOperator where
  "namespaceKey = \<lparr>Key = ''namespace'', Value = [''/a/b/*''], Operator = Equal, ID = []\<rparr>"

definition domainParent :: KeyValueOperator where
  "domainParent =
     \<lparr>Key = ''domain'',
      Value = [''com.example.*'', ''com.*'', ''com.longexample.*'', ''com.ex.*''],
      Operator = Equal, ID = []\<rparr>"

definition domainFull :: KeyValueOperator where
  "domainFull = \<lparr>Key = ''domain'', Value = [''com.example.web''], Operator = Equal, ID = []\<rparr>"

text \<open>\<open>&policy.FlowPolicy{Action: policy.Accept}\<close>, the policy of every selector of the tests.\<close>

definition testPolicy :: FlowPolicy where
  "testPolicy = \<lparr>Action = Accept, ObserveAction = ObserveNone, PolicyID = [], ServiceID = []\<rparr>"

definition appEqWebAndenvEqDemo :: TagSelector where
  "appEqWebAndenvEqDemo = \<lparr>Clause = [appEqWeb, envEqDemo], SelectorPolicy = testPolicy\<rparr>"

definition appEqWebAndEnvEqDemoOrQa :: TagSelector where
  "appEqWebAndEnvEqDemoOrQa = \<lparr>Clause = [appEqWeb, envEqDemoOrQa], SelectorPolicy = testPolicy\<rparr>"

definition dcTagExists :: TagSelector where
  "dcTagExists = \<lparr>Clause = [dcKeyExists], SelectorPolicy = testPolicy\<rparr>"

definition policylangNotJava :: TagSelector where
  "policylangNotJava = \<lparr>Clause = [langNotJava], SelectorPolicy = testPolicy\<rparr>"

definition appEqWebAndenvNotDemoOrQA :: TagSelector where
  "appEqWebAndenvNotDemoOrQA = \<lparr>Clause = [appEqWeb, envNotDemoOrQA], SelectorPolicy = testPolicy\<rparr>"

definition envKeyNotExistsAndAppEqWeb :: TagSelector where
  "envKeyNotExistsAndAppEqWeb = \<lparr>Clause = [envKeyNotExists, appEqWeb], SelectorPolicy = testPolicy\<rparr>"

definition vulnTagPolicy :: TagSelector where
  "vulnTagPolicy = \<lparr>Clause = [vulnerKey], SelectorPolicy = testPolicy\<rparr>"

definition policyNamespace :: TagSelector where
  "policyNamespace = \<lparr>Clause = [namespaceKey, vulnerLowKey], SelectorPolicy = testPolicy\<rparr>"

definition policyDomainParent :: TagSelector where
  "policyDomainParent = \<lparr>Clause = [domainParent], SelectorPolicy = testPolicy\<rparr>"

definition policyDomainFull :: TagSelector where
  "policyDomainFull = \<lparr>Clause = [domainFull], SelectorPolicy = testPolicy\<rparr>"

definition policyEnvDoesNotExist :: TagSelector where
  "policyEnvDoesNotExist = \<lparr>Clause = [envKeyNotExists], SelectorPolicy = testPolicy\<rparr>"

text \<open>The selectors of \<open>TestFuncSearch\<close> in the order in which it adds them, and the
  database after a list of selectors has been added to an empty one.\<close>

definition testSelectors :: "TagSelector list" where
  "testSelectors =
     [appEqWebAndenvEqDemo, policylangNotJava, dcTagExists, appEqWebAndEnvEqDemoOrQa,
      appEqWebAndenvNotDemoOrQA, envKeyNotExistsAndAppEqWeb, policyDomainParent,
      policyDomainFull, policyEnvDoesNotExist, vulnTagPolicy, policyNamespace]"

definition addPolicies :: "TagSelector list \<Rightarrow> PolicyDB" where
  "addPolicies selectors = foldl (\<lambda>m selector. snd (AddPolicy selector m)) NewPolicyDB selectors"

definition testPolicyDB :: PolicyDB where
  "testPolicyDB = addPolicies testSelectors"

section \<open>Properties of the ACL cache\<close>

lemma lookup_uncovered:
  "\<not> list_ex (\<lambda>pa. minPort pa \<le> port \<and> port \<le> maxPort pa) pas \<Longrightarrow>
   lookup pas port report = (report, None, Some ''No match'')"
  by (induction pas) auto

lemma getMatchingAction_uncovered:
  "\<forall>pr \<in> set tier. \<not> covers pr ip port \<Longrightarrow>
   getMatchingAction tier ip port report = (report, None, Some ''No match'')"
proof (induction tier)
  case Nil
  then show ?case by simp
next
  case (Cons pr prs)
  then have rest: "getMatchingAction prs ip port report = (report, None, Some ''No match'')"
    by simp
  from Cons.prems have nc: "\<not> covers pr ip port" by simp
  show ?case
  proof (cases "rules pr (ip AND mask pr)")
    case None
    then show ?thesis using rest by simp
  next
    case (Some actionList)
    with nc have "\<not> list_ex (\<lambda>pa. minPort pa \<le> port \<and> port \<le> maxPort pa) actionList"
      by (simp add: covers_def)
    then have "lookup actionList port report = (report, None, Some ''No match'')"
      by (rule lookup_uncovered)
    with Some rest show ?thesis by simp
  qed
qed

lemma find_append_case:
  "find P (xs @ ys) = (case find P xs of None \<Rightarrow> find P ys | Some x \<Rightarrow> Some x)"
  by (induction xs) auto

lemma find_Some_member:
  "find P xs = Some x \<Longrightarrow> x \<in> set xs \<and> P x"
  by (induction xs) (auto split: if_splits)

lemma lookup_matching:
  "lookup pas port report = (r, p, e) \<Longrightarrow>
   p = find (\<lambda>pol. ObserveAction pol \<noteq> ObserveContinue)
         (map paPolicy (filter (\<lambda>pa. minPort pa \<le> port \<and> port \<le> maxPort pa) pas)) \<and>
   (e = None) = (p \<noteq> None)"
  by (induction pas arbitrary: report) (auto split: if_splits)

lemma getMatchingAction_matching:
  "getMatchingAction tier ip port report = (r, p, e) \<Longrightarrow>
   p = matchingPolicy tier ip port \<and> (e = None) = (p \<noteq> None)"
proof (induction tier arbitrary: report)
  case Nil
  then show ?case by (auto simp: matchingPolicy_def)
next
  case (Cons pr prs)
  have split: "matchingPolicy (pr # prs) ip port =
      (case find (\<lambda>pol. ObserveAction pol \<noteq> ObserveContinue) (coveringPolicies pr ip port) of
         None \<Rightarrow> matchingPolicy prs ip port
       | Some pol \<Rightarrow> Some pol)"
    unfolding matchingPolicy_def by (simp add: find_append_case)
  show ?case
  proof (cases "rules pr (ip AND mask pr)")
    case None
    with Cons.prems have "getMatchingAction prs ip port report = (r, p, e)" by simp
    from Cons.IH [OF this] None show ?thesis
      by (simp add: split coveringPolicies_def)
  next
    case (Some actionList)
    obtain r' p' e' where lk: "lookup actionList port report = (r', p', e')"
      by (cases "lookup actionList port report") auto
    from lookup_matching [OF lk] Some
    have p': "p' = find (\<lambda>pol. ObserveAction pol \<noteq> ObserveContinue) (coveringPolicies pr ip port)"
      and e': "(e' = None) = (p' \<noteq> None)"
      by (simp_all add: coveringPolicies_def)
    show ?thesis
    proof (cases e')
      case None
      with Cons.prems Some lk have "p = p'" "e = None" by simp_all
      with p' e' None show ?thesis by (auto simp: split)
    next
      case (Some err)
      with Cons.prems \<open>rules pr (ip AND mask pr) = Some actionList\<close> lk
      have "getMatchingAction prs ip port r' = (r, p, e)" by simp
      from Cons.IH [OF this] p' e' Some show ?thesis by (simp add: split)
    qed
  qed
qed

lemma matchingPolicy_entry:
  "(matchingPolicy tier ip port \<noteq> None) =
   (\<exists>pr \<in> set tier. \<exists>pol \<in> set (coveringPolicies pr ip port). ObserveAction pol \<noteq> ObserveContinue)"
  by (auto simp: matchingPolicy_def find_None_iff)

lemma matchingPolicy_Some:
  "matchingPolicy tier ip port = Some pol \<Longrightarrow>
   (\<exists>pr \<in> set tier. pol \<in> set (coveringPolicies pr ip port)) \<and> ObserveAction pol \<noteq> ObserveContinue"
  unfolding matchingPolicy_def by (drule find_Some_member) auto

lemma getMatchingAction_Some:
  assumes "matchingPolicy tier ip port = Some pol"
  shows "\<exists>r. getMatchingAction tier ip port report = (r, Some pol, None)"
proof -
  obtain r p e where g: "getMatchingAction tier ip port report = (r, p, e)"
    by (cases "getMatchingAction tier ip port report") auto
  from getMatchingAction_matching [OF g] assms g show ?thesis by auto
qed

lemma getMatchingAction_None:
  assumes "matchingPolicy tier ip port = None"
  shows "\<exists>r e. getMatchingAction tier ip port report = (r, None, Some e)"
proof -
  obtain r p e where g: "getMatchingAction tier ip port report = (r, p, e)"
    by (cases "getMatchingAction tier ip port report") auto
  from getMatchingAction_matching [OF g] assms g show ?thesis by (cases e) auto
qed

text \<open>
  C1 (amended). The tiers are evaluated in the order reject, accept, observe, and the
  first tier in which an entry matches decides, where an entry matches when its prefix
  contains the address, one of its port ranges contains the port and the observe action of
  the policy of that range is not Continue. When an entry of the reject tier matches, the
  packet policy is the policy of the first matching range of the reject tier and there is
  no error, whatever the accept and observe tiers hold. When no entry of the reject tier
  matches and one of the accept tier does, the accept tier decides, whatever the observe
  tier holds; the observe tier decides only when neither does.
\<close>

theorem GetMatchingAction_tier_order:
  "((\<exists>pr \<in> set (reject c). \<exists>pol \<in> set (coveringPolicies pr ip port).
        ObserveAction pol \<noteq> ObserveContinue) \<longrightarrow>
      (\<exists>pol. matchingPolicy (reject c) ip port = Some pol \<and>
             (\<exists>pr \<in> set (reject c). pol \<in> set (coveringPolicies pr ip port)) \<and>
             (\<forall>a ob. \<exists>r. GetMatchingAction (c\<lparr>accept := a, observe := ob\<rparr>) ip port
                          = (r, Some pol, None)))) \<and>
   (matchingPolicy (reject c) ip port = None \<and> matchingPolicy (accept c) ip port = Some pol1 \<longrightarrow>
      (\<forall>ob. \<exists>r. GetMatchingAction (c\<lparr>observe := ob\<rparr>) ip port = (r, Some pol1, None))) \<and>
   (matchingPolicy (reject c) ip port = None \<and> matchingPolicy (accept c) ip port = None \<and>
    matchingPolicy (observe c) ip port = Some pol2 \<longrightarrow>
      (\<exists>r. GetMatchingAction c ip port = (r, Some pol2, None)))"
proof (intro conjI impI)
  assume "\<exists>pr \<in> set (reject c). \<exists>pol \<in> set (coveringPolicies pr ip port).
        ObserveAction pol \<noteq> ObserveContinue"
  then have "matchingPolicy (reject c) ip port \<noteq> None"
    by (simp only: matchingPolicy_entry)
  then obtain pol where m: "matchingPolicy (reject c) ip port = Some pol" by auto
  from matchingPolicy_Some [OF m]
  have e: "\<exists>pr \<in> set (reject c). pol \<in> set (coveringPolicies pr ip port)" by simp
  have "\<forall>a ob. \<exists>r. GetMatchingAction (c\<lparr>accept := a, observe := ob\<rparr>) ip port
                          = (r, Some pol, None)"
  proof (intro allI)
    fix a ob
    from getMatchingAction_Some [OF m, of None]
    obtain r where "getMatchingAction (reject c) ip port None = (r, Some pol, None)" by auto
    then have "GetMatchingAction (c\<lparr>accept := a, observe := ob\<rparr>) ip port = (r, Some pol, None)"
      by (simp add: GetMatchingAction_def)
    then show "\<exists>r. GetMatchingAction (c\<lparr>accept := a, observe := ob\<rparr>) ip port
                          = (r, Some pol, None)" ..
  qed
  with m e show "\<exists>pol. matchingPolicy (reject c) ip port = Some pol \<and>
             (\<exists>pr \<in> set (reject c). pol \<in> set (coveringPolicies pr ip port)) \<and>
             (\<forall>a ob. \<exists>r. GetMatchingAction (c\<lparr>accept := a, observe := ob\<rparr>) ip port
                          = (r, Some pol, None))"
    by (intro exI [of _ pol] conjI)
next
  assume h: "matchingPolicy (reject c) ip port = None \<and> matchingPolicy (accept c) ip port = Some pol1"
  show "\<forall>ob. \<exists>r. GetMatchingAction (c\<lparr>observe := ob\<rparr>) ip port = (r, Some pol1, None)"
  proof (intro allI)
    fix ob
    from h getMatchingAction_None [of "reject c" ip port None]
    obtain r1 e1 where 1: "getMatchingAction (reject c) ip port None = (r1, None, Some e1)" by auto
    from h getMatchingAction_Some [of "accept c" ip port pol1 r1]
    obtain r where 2: "getMatchingAction (accept c) ip port r1 = (r, Some pol1, None)" by auto
    from 1 2 have "GetMatchingAction (c\<lparr>observe := ob\<rparr>) ip port = (r, Some pol1, None)"
      by (simp add: GetMatchingAction_def)
    then show "\<exists>r. GetMatchingAction (c\<lparr>observe := ob\<rparr>) ip port = (r, Some pol1, None)" ..
  qed
next
  assume h: "matchingPolicy (reject c) ip port = None \<and> matchingPolicy (accept c) ip port = None \<and>
    matchingPolicy (observe c) ip port = Some pol2"
  from h getMatchingAction_None [of "reject c" ip port None]
  obtain r1 e1 where 1: "getMatchingAction (reject c) ip port None = (r1, None, Some e1)" by auto
  from h getMatchingAction_None [of "accept c" ip port r1]
  obtain r2 e2 where 2: "getMatchingAction (accept c) ip port r1 = (r2, None, Some e2)" by auto
  from h getMatchingAction_Some [of "observe c" ip port pol2 r2]
  obtain r where 3: "getMatchingAction (observe c) ip port r2 = (r, Some pol2, None)" by auto
  from 1 2 3 have "GetMatchingAction c ip port = (r, Some pol2, None)"
    by (simp add: GetMatchingAction_def)
  then show "\<exists>r. GetMatchingAction c ip port = (r, Some pol2, None)" ..
qed

theorem GetMatchingAction_tier_order_witness:
  "(\<exists>pr \<in> set (reject exampleACLs). \<exists>pol \<in> set (coveringPolicies pr 0x0A000001 80).
      ObserveAction pol \<noteq> ObserveContinue) \<and>
   matchingPolicy (reject exampleACLs) 0x0A000001 80 = Some rejectPolicy \<and>
   matchingPolicy (accept exampleACLs) 0x0A000001 80 = Some acceptPolicy \<and>
   (\<exists>r. GetMatchingAction exampleACLs 0x0A000001 80 = (r, Some rejectPolicy, None)) \<and>
   (\<exists>r. GetMatchingAction (exampleACLs\<lparr>reject := []\<rparr>) 0x0A000001 80 = (r, Some acceptPolicy, None)) \<and>
   (\<exists>r. GetMatchingAction \<lparr>reject = [], accept = [], observe = accept exampleACLs\<rparr> 0x0A000001 80
          = (r, Some acceptPolicy, None))"
proof -
  let ?c2 = "exampleACLs\<lparr>reject := []\<rparr>"
  let ?c3 = "\<lparr>reject = [], accept = [], observe = accept exampleACLs\<rparr>"
  have mr: "matchingPolicy (reject exampleACLs) 0x0A000001 80 = Some rejectPolicy"
    by (simp add: matchingPolicy_def coveringPolicies_def exampleACLs_def rejectPolicy_def)
  have ma: "matchingPolicy (accept exampleACLs) 0x0A000001 80 = Some acceptPolicy"
    by (simp add: matchingPolicy_def coveringPolicies_def exampleACLs_def acceptPolicy_def)
  have ex: "\<exists>pr \<in> set (reject exampleACLs). \<exists>pol \<in> set (coveringPolicies pr 0x0A000001 80).
      ObserveAction pol \<noteq> ObserveContinue"
    using mr by (simp only: matchingPolicy_entry [symmetric]) simp
  have n: "matchingPolicy [] 0x0A000001 80 = None"
    by (simp add: matchingPolicy_def)
  from GetMatchingAction_tier_order [where c = exampleACLs and ip = "0x0A000001" and port = 80] ex mr
  have "\<forall>a ob. \<exists>r. GetMatchingAction (exampleACLs\<lparr>accept := a, observe := ob\<rparr>) 0x0A000001 80
      = (r, Some rejectPolicy, None)"
    by auto
  then have "\<exists>r. GetMatchingAction
        (exampleACLs\<lparr>accept := accept exampleACLs, observe := observe exampleACLs\<rparr>) 0x0A000001 80
      = (r, Some rejectPolicy, None)"
    by blast
  then have 1: "\<exists>r. GetMatchingAction exampleACLs 0x0A000001 80 = (r, Some rejectPolicy, None)"
    by simp
  from GetMatchingAction_tier_order
    [where c = ?c2 and ip = "0x0A000001" and port = 80 and ?pol1.0 = acceptPolicy] n ma
  have "\<forall>ob. \<exists>r. GetMatchingAction (?c2\<lparr>observe := ob\<rparr>) 0x0A000001 80 = (r, Some acceptPolicy, None)"
    by simp
  then have "\<exists>r. GetMatchingAction (?c2\<lparr>observe := observe ?c2\<rparr>) 0x0A000001 80
      = (r, Some acceptPolicy, None)"
    by blast
  then have 2: "\<exists>r. GetMatchingAction ?c2 0x0A000001 80 = (r, Some acceptPolicy, None)"
    by simp
  from GetMatchingAction_tier_order
    [where c = ?c3 and ip = "0x0A000001" and port = 80 and ?pol2.0 = acceptPolicy] n ma
  have 3: "\<exists>r. GetMatchingAction ?c3 0x0A000001 80 = (r, Some acceptPolicy, None)"
    by simp
  from ex mr ma 1 2 3 show ?thesis by (intro conjI)
qed

text \<open>
  C1 as stated fails for a reject-tier entry that observes with Continue. \<open>AddRule\<close>
  sends a rule whose policy rejects and observes with Continue to the reject tier; its
  entry covers address 10.0.0.1 and port 80, and yet the packet policy returned is the one
  of the accept tier, the reject policy being the report only.
\<close>

theorem GetMatchingAction_observed_reject_overridden:
  "snd (AddRule (\<lambda>rule a. (None, observedRejectEntry # a)) (\<lambda>a. a)
          \<lparr>Address = ''10.0.0.0/24'', Port = ''80'', Protocol = ''TCP'', Policy = observedRejectPolicy\<rparr>
          (exampleACLs\<lparr>reject := []\<rparr>)) = observedACLs \<and>
   covers observedRejectEntry 0x0A000001 80 \<and>
   coveringPolicies observedRejectEntry 0x0A000001 80 = [observedRejectPolicy] \<and>
   Action observedRejectPolicy = Reject \<and>
   GetMatchingAction observedACLs 0x0A000001 80
     = (Some observedRejectPolicy, Some acceptPolicy, None)"
  by (simp add: AddRule_def IsObserveApply_def Accepted_def observedACLs_def exampleACLs_def
      observedRejectEntry_def observedRejectPolicy_def acceptPolicy_def covers_def
      coveringPolicies_def GetMatchingAction_def Let_def)

text \<open>
  C8. When no entry of any of the three tiers covers \<open>(ip, port)\<close>, the result is the
  catch-all policy (Reject, "default", "default") as report and as packet policy, together
  with a non-nil error.
\<close>

theorem GetMatchingAction_no_match:
  assumes "\<forall>pr \<in> set (reject c). \<not> covers pr ip port"
    and "\<forall>pr \<in> set (accept c). \<not> covers pr ip port"
    and "\<forall>pr \<in> set (observe c). \<not> covers pr ip port"
  shows "GetMatchingAction c ip port = (Some catchAllPolicy, Some catchAllPolicy, Some ''no match'') \<and>
         Action catchAllPolicy = Reject \<and> PolicyID catchAllPolicy = ''default'' \<and>
         ServiceID catchAllPolicy = ''default''"
proof -
  have "getMatchingAction (reject c) ip port None = (None, None, Some ''No match'')"
    using assms(1) by (rule getMatchingAction_uncovered)
  moreover have "getMatchingAction (accept c) ip port None = (None, None, Some ''No match'')"
    using assms(2) by (rule getMatchingAction_uncovered)
  moreover have "getMatchingAction (observe c) ip port None = (None, None, Some ''No match'')"
    using assms(3) by (rule getMatchingAction_uncovered)
  ultimately show ?thesis
    by (simp add: GetMatchingAction_def catchAllPolicy_def)
qed

theorem GetMatchingAction_no_match_witness:
  "\<not> list_ex (\<lambda>pr. covers pr 0x0B000001 80) (reject exampleACLs) \<and>
   \<not> list_ex (\<lambda>pr. covers pr 0x0B000001 80) (accept exampleACLs) \<and>
   \<not> list_ex (\<lambda>pr. covers pr 0x0B000001 80) (observe exampleACLs) \<and>
   GetMatchingAction exampleACLs 0x0B000001 80
     = (Some catchAllPolicy, Some catchAllPolicy, Some ''no match'')"
proof -
  have r: "\<forall>pr \<in> set (reject exampleACLs). \<not> covers pr 0x0B000001 80"
    by (simp add: exampleACLs_def covers_def)
  have a: "\<forall>pr \<in> set (accept exampleACLs). \<not> covers pr 0x0B000001 80"
    by (simp add: exampleACLs_def covers_def)
  have ob: "\<forall>pr \<in> set (observe exampleACLs). \<not> covers pr 0x0B000001 80"
    by (simp add: exampleACLs_def)
  from GetMatchingAction_no_match [OF r a ob]
  have "GetMatchingAction exampleACLs 0x0B000001 80
     = (Some catchAllPolicy, Some catchAllPolicy, Some ''no match'')"
    by blast
  with r a ob show ?thesis by (simp add: list_ex_iff)
qed

section \<open>Properties of the UDP datapath\<close>

lemmas example_defs =
  exampleEnv_def examplePacketLib_def examplePacket_def emptyDatapath_def exampleDatapath_def
  exampleTokens_def exampleContext_def exampleConnection_def CreateUDPAuthMarker_def
  UDPAuthMarker_def acceptPolicy_def rejectPolicy_def

lemma synack_without_state_panics:
  assumes "SourcePort p \<noteq> 53"
    and "GetUDPType (pk env) p \<noteq> UDPSynMask (pk env)"
    and "GetUDPType (pk env) p = UDPSynAckMask (pk env)"
    and "udpSourcePortConnectionCache d (SourcePortHash (pk env) p PacketTypeNetwork) = None"
  shows "ProcessNetworkUDPPacket env p d = (Panics, d)"
  using assms
  by (simp add: ProcessNetworkUDPPacket_def Let_def netSynAckUDPRetrieveState_def GetReset_def
      ProcessNetworkUDPPacket_handshake_def)

text \<open>
  C4. A SYNACK from the network (source port 6000, not DNS) on a datapath whose
  \<open>udpSourcePortConnectionCache\<close> is empty: \<open>netSynAckUDPRetrieveState\<close> returns a nil
  connection and no error, and \<open>ProcessNetworkUDPPacket\<close> panics on \<open>conn.Context\<close>; it
  does not return.
\<close>

theorem ProcessNetworkUDPPacket_synack_miss_panics:
  "GetUDPType (pk (exampleEnv True)) (examplePacket 0x80 6000 5000)
     = UDPSynAckMask (pk (exampleEnv True)) \<and>
   udpSourcePortConnectionCache (emptyDatapath UDPSynSend)
     (SourcePortHash (pk (exampleEnv True)) (examplePacket 0x80 6000 5000) PacketTypeNetwork) = None \<and>
   netSynAckUDPRetrieveState (exampleEnv True) (examplePacket 0x80 6000 5000)
     (emptyDatapath UDPSynSend) = (None, None) \<and>
   ProcessNetworkUDPPacket (exampleEnv True) (examplePacket 0x80 6000 5000)
     (emptyDatapath UDPSynSend) = (Panics, emptyDatapath UDPSynSend)"
proof -
  let ?env = "exampleEnv True" and ?p = "examplePacket 0x80 6000 5000"
  let ?d = "emptyDatapath UDPSynSend"
  have t: "GetUDPType (pk ?env) ?p = UDPSynAckMask (pk ?env)"
    by (simp add: example_defs)
  have s: "GetUDPType (pk ?env) ?p \<noteq> UDPSynMask (pk ?env)"
    by (simp add: example_defs)
  have m: "udpSourcePortConnectionCache ?d (SourcePortHash (pk ?env) ?p PacketTypeNetwork) = None"
    by (simp add: example_defs)
  have port: "SourcePort ?p \<noteq> 53"
    by (simp add: example_defs)
  have r: "netSynAckUDPRetrieveState ?env ?p ?d = (None, None)"
    using m by (simp add: netSynAckUDPRetrieveState_def GetReset_def)
  from synack_without_state_panics [OF port s t m] t m r show ?thesis by blast
qed

lemma handshake_never_nil:
  "fst (ProcessNetworkUDPPacket_handshake env p conn d) \<noteq> Returns None"
  by (simp add: ProcessNetworkUDPPacket_handshake_def
      split: option.split prod.split bool.split go.split)

lemma sendUDPAckPacket_no_panic:
  assumes "\<forall>v \<in> ran (udpNatConnectionTracker d). 2 \<le> length (Split v CHR '':'')"
  shows "fst (sendUDPAckPacket env p ctx c d) \<noteq> Panics"
proof -
  obtain tok auth where tk: "CreateAckPacketToken (tokenAccessor env) (puContexts d ctx)
      (Auth (conns d c)) = (tok, auth)"
    by (cases "CreateAckPacketToken (tokenAccessor env) (puContexts d ctx) (Auth (conns d c))")
  have nat1: "udpNatConnectionTracker (setAuth c auth d) = udpNatConnectionTracker d"
    by (simp add: setAuth_def)
  show ?thesis
  proof (cases tok)
    case (Inl e)
    with tk show ?thesis by (simp add: sendUDPAckPacket_def Let_def split_def)
  next
    case (Inr udpData)
    show ?thesis
    proof (cases "GetReset (udpNatConnectionTracker d) (SourcePortHash (pk env) p PacketTypeNetwork)")
      case (Inl e)
      with tk Inr nat1 show ?thesis by (simp add: sendUDPAckPacket_def Let_def split_def)
    next
      case nt: (Inr v)
      then have "v \<in> ran (udpNatConnectionTracker d)"
        by (auto simp: GetReset_def ran_def split: option.splits)
      with assms have "2 \<le> length (Split v CHR '':'')" by blast
      then obtain destIP portString others where
        sp: "Split v CHR '':'' = destIP # portString # others"
        by (cases "Split v CHR '':''"; cases "tl (Split v CHR '':'')") auto
      with tk Inr nt nat1 show ?thesis
        by (simp add: sendUDPAckPacket_def Let_def split_def split: sum.splits)
    qed
  qed
qed

lemma processNetworkUDPSynAckPacket_nat:
  "udpNatConnectionTracker (snd (processNetworkUDPSynAckPacket env p ctx c d))
     = udpNatConnectionTracker d"
  by (simp add: processNetworkUDPSynAckPacket_def Let_def split_def setAuth_def SetState_def
      reportUDPRejectedFlow_def emit_def split: sum.splits option.splits)

lemma processNetUDPPacket_no_panic:
  assumes "\<forall>v \<in> ran (udpNatConnectionTracker d). 2 \<le> length (Split v CHR '':'')"
  shows "fst (processNetUDPPacket env p ctx conn d) \<noteq> Panics"
proof -
  have ack: "fst (sendUDPAckPacket env p1 ctx c
                   (snd (processNetworkUDPSynAckPacket env p ctx c d))) \<noteq> Panics" for p1 c
    using assms by (intro sendUDPAckPacket_no_panic) (simp add: processNetworkUDPSynAckPacket_nat)
  show ?thesis
  proof (cases conn)
    case None
    then show ?thesis by (simp add: processNetUDPPacket_def)
  next
    case (Some c)
    obtain res d1 where sa: "processNetworkUDPSynAckPacket env p ctx c d = (res, d1)"
      by (cases "processNetworkUDPSynAckPacket env p ctx c d")
    from ack [of _ c] sa have "\<And>p1 d2. sendUDPAckPacket env p1 ctx c d1 \<noteq> (Panics, d2)"
      by (metis fst_conv snd_conv)
    with Some sa show ?thesis
      by (auto simp: processNetUDPPacket_def Let_def
          split: prod.splits option.splits bool.splits go.splits)
  qed
qed

lemma handshake_returns:
  assumes "\<forall>v \<in> ran (udpNatConnectionTracker d). 2 \<le> length (Split v CHR '':'')"
  shows "\<exists>err. fst (ProcessNetworkUDPPacket_handshake env p (Some c) d) = Returns (Some err)"
proof -
  have "fst (processNetUDPPacket env p1 ctx (Some c) d) \<noteq> Panics" for p1 ctx
    using assms by (rule processNetUDPPacket_no_panic)
  then have "\<And>p1 ctx d2. processNetUDPPacket env p1 ctx (Some c) d \<noteq> (Panics, d2)"
    by (metis fst_conv)
  then show ?thesis
    by (auto simp: ProcessNetworkUDPPacket_handshake_def
        split: prod.splits bool.splits go.splits option.splits)
qed

lemma netSynUDPRetrieveState_nat:
  "netSynUDPRetrieveState env p d = (conn, e, d1) \<Longrightarrow>
   udpNatConnectionTracker d1 = udpNatConnectionTracker d"
  by (auto simp: netSynUDPRetrieveState_def newUDPConnection_def Let_def
      split: sum.splits option.splits)

text \<open>
  C6. A packet from the network that is not DNS and whose type is SYN, SYNACK or ACK never
  makes \<open>ProcessNetworkUDPPacket\<close> return nil, also when the handshake step succeeds, so
  the packet is not delivered to the application. When a connection is retrieved for the
  packet, and every entry of the NAT tracker has a colon to split at, the function returns
  an error. When the packet is a SYNACK and the source-port cache has no connection for
  it, the function does not return an error: it panics, with the state as it was.
\<close>

theorem ProcessNetworkUDPPacket_drops_handshake:
  assumes "SourcePort p \<noteq> 53"
    and "GetUDPType (pk env) p = UDPSynMask (pk env) \<or>
         GetUDPType (pk env) p = UDPSynAckMask (pk env) \<or>
         GetUDPType (pk env) p = UDPAckMask (pk env)"
  shows "fst (ProcessNetworkUDPPacket env p d) \<noteq> Returns None \<and>
         ((GetUDPType (pk env) p = UDPSynMask (pk env) \<or>
           GetUDPType (pk env) p \<noteq> UDPSynAckMask (pk env) \<or>
           udpSourcePortConnectionCache d (SourcePortHash (pk env) p PacketTypeNetwork) \<noteq> None) \<and>
          (\<forall>v \<in> ran (udpNatConnectionTracker d). 2 \<le> length (Split v CHR '':'')) \<longrightarrow>
            (\<exists>err. fst (ProcessNetworkUDPPacket env p d) = Returns (Some err))) \<and>
         (GetUDPType (pk env) p \<noteq> UDPSynMask (pk env) \<and>
          GetUDPType (pk env) p = UDPSynAckMask (pk env) \<and>
          udpSourcePortConnectionCache d (SourcePortHash (pk env) p PacketTypeNetwork) = None \<longrightarrow>
            ProcessNetworkUDPPacket env p d = (Panics, d))"
proof (intro conjI impI)
  show "fst (ProcessNetworkUDPPacket env p d) \<noteq> Returns None"
    using assms handshake_never_nil
    by (auto simp add: ProcessNetworkUDPPacket_def Let_def split: option.split prod.split sum.split)
next
  assume h: "(GetUDPType (pk env) p = UDPSynMask (pk env) \<or>
           GetUDPType (pk env) p \<noteq> UDPSynAckMask (pk env) \<or>
           udpSourcePortConnectionCache d (SourcePortHash (pk env) p PacketTypeNetwork) \<noteq> None) \<and>
          (\<forall>v \<in> ran (udpNatConnectionTracker d). 2 \<le> length (Split v CHR '':''))"
  then have wf: "\<forall>v \<in> ran (udpNatConnectionTracker d). 2 \<le> length (Split v CHR '':'')"
    by simp
  let ?r = "ProcessNetworkUDPPacket env p d"
  show "\<exists>err. fst ?r = Returns (Some err)"
  proof (cases "GetUDPType (pk env) p = UDPSynMask (pk env)")
    case True
    obtain conn e d1 where rs: "netSynUDPRetrieveState env p d = (conn, e, d1)"
      by (cases "netSynUDPRetrieveState env p d")
    from netSynUDPRetrieveState_nat [OF rs] wf
    have wf1: "\<forall>v \<in> ran (udpNatConnectionTracker (SetState c UDPSynReceived d1)).
        2 \<le> length (Split v CHR '':'')" for c
      by (simp add: SetState_def)
    show ?thesis
    proof (cases e)
      case (Some err)
      with assms(1) True rs show ?thesis
        by (simp add: ProcessNetworkUDPPacket_def Let_def split: option.split)
    next
      case None
      show ?thesis
      proof (cases conn)
        case cn: None
        with assms(1) True rs None show ?thesis
          by (simp add: ProcessNetworkUDPPacket_def Let_def)
      next
        case (Some c)
        from handshake_returns [OF wf1 [of c], of env p c] assms(1) True rs None Some
        show ?thesis
          by (simp add: ProcessNetworkUDPPacket_def Let_def)
      qed
    qed
  next
    case nsyn: False
    show ?thesis
    proof (cases "GetUDPType (pk env) p = UDPSynAckMask (pk env)")
      case True
      with h nsyn obtain c where
        hit: "udpSourcePortConnectionCache d (SourcePortHash (pk env) p PacketTypeNetwork) = Some c"
        by auto
      from handshake_returns [OF wf, of env p c] assms(1) nsyn True hit
      show ?thesis
        by (simp add: ProcessNetworkUDPPacket_def Let_def netSynAckUDPRetrieveState_def GetReset_def)
    next
      case nsa: False
      with assms(2) nsyn have ack: "GetUDPType (pk env) p = UDPAckMask (pk env)" by simp
      show ?thesis
      proof (cases "netUDPAckRetrieveState env p d")
        case (Inl err)
        with assms(1) nsyn nsa ack show ?thesis
          by (simp add: ProcessNetworkUDPPacket_def Let_def)
      next
        case (Inr c)
        from handshake_returns [OF wf, of env p c] assms(1) nsyn nsa ack Inr
        show ?thesis
          by (simp add: ProcessNetworkUDPPacket_def Let_def)
      qed
    qed
  qed
next
  assume h: "GetUDPType (pk env) p \<noteq> UDPSynMask (pk env) \<and>
          GetUDPType (pk env) p = UDPSynAckMask (pk env) \<and>
          udpSourcePortConnectionCache d (SourcePortHash (pk env) p PacketTypeNetwork) = None"
  from h have a: "GetUDPType (pk env) p \<noteq> UDPSynMask (pk env)"
    by blast
  from h have b: "GetUDPType (pk env) p = UDPSynAckMask (pk env)"
    by blast
  from h have c: "udpSourcePortConnectionCache d (SourcePortHash (pk env) p PacketTypeNetwork) = None"
    by blast
  from assms(1) a b c show "ProcessNetworkUDPPacket env p d = (Panics, d)"
    by (rule synack_without_state_panics)
qed

lemma example_syn_accepted:
  "fst (ProcessNetworkUDPPacket (exampleEnv True) (examplePacket 0x40 6000 80)
          (emptyDatapath UDPSynStart))
   = Returns (Some ''Drop net hanshake packets (udp)'')"
  apply (simp add: ProcessNetworkUDPPacket_def Let_def example_defs netSynUDPRetrieveState_def
      newUDPConnection_def)
  apply (simp add: ProcessNetworkUDPPacket_handshake_def preNet_def SetState_def
      processNetUDPPacket_def Let_def processNetworkUDPSynPacket_def setAuth_def
      AppendKeyValue_def PortNumberLabelString_def Get_def)
  apply (simp add: example_defs Itoa.simps digit_def Rejected_def postNet_def
      sendUDPSynAckPacket_def preApp_def postApp_def writeSocket_def emit_def setAuth_def
      SetState_def)
  done

theorem ProcessNetworkUDPPacket_drops_handshake_witness:
  "SourcePort (examplePacket 0x40 6000 80) \<noteq> 53 \<and>
   GetUDPType (pk (exampleEnv True)) (examplePacket 0x40 6000 80) = UDPSynMask (pk (exampleEnv True)) \<and>
   list_all (\<lambda>v. 2 \<le> length (Split v CHR '':'')) [''10.0.0.2:5000''] \<and>
   (\<exists>err. fst (ProcessNetworkUDPPacket (exampleEnv True) (examplePacket 0x40 6000 80)
                 (exampleDatapath UDPSynStart)) = Returns (Some err)) \<and>
   fst (ProcessNetworkUDPPacket (exampleEnv True) (examplePacket 0x40 6000 80)
          (emptyDatapath UDPSynStart)) = Returns (Some ''Drop net hanshake packets (udp)'') \<and>
   SourcePort (examplePacket 0x80 6000 5000) \<noteq> 53 \<and>
   GetUDPType (pk (exampleEnv True)) (examplePacket 0x80 6000 5000)
     \<noteq> UDPSynMask (pk (exampleEnv True)) \<and>
   GetUDPType (pk (exampleEnv True)) (examplePacket 0x80 6000 5000)
     = UDPSynAckMask (pk (exampleEnv True)) \<and>
   udpSourcePortConnectionCache (emptyDatapath UDPSynSend)
     (SourcePortHash (pk (exampleEnv True)) (examplePacket 0x80 6000 5000) PacketTypeNetwork) = None \<and>
   ProcessNetworkUDPPacket (exampleEnv True) (examplePacket 0x80 6000 5000) (emptyDatapath UDPSynSend)
     = (Panics, emptyDatapath UDPSynSend)"
proof -
  let ?env = "exampleEnv True"
  let ?syn = "examplePacket 0x40 6000 80" and ?synack = "examplePacket 0x80 6000 5000"
  have port: "SourcePort ?syn \<noteq> 53"
    by (simp add: example_defs)
  have t: "GetUDPType (pk ?env) ?syn = UDPSynMask (pk ?env)"
    by (simp add: example_defs)
  have rn: "ran (udpNatConnectionTracker (exampleDatapath UDPSynStart)) = {''10.0.0.2:5000''}"
    by (simp add: exampleDatapath_def emptyDatapath_def)
  have sp: "2 \<le> length (Split ''10.0.0.2:5000'' CHR '':'')"
    by simp
  from rn sp have wf: "\<forall>v \<in> ran (udpNatConnectionTracker (exampleDatapath UDPSynStart)).
      2 \<le> length (Split v CHR '':'')"
    by simp
  from ProcessNetworkUDPPacket_drops_handshake
    [where env = ?env and p = ?syn and d = "exampleDatapath UDPSynStart"] port t wf
  have 1: "\<exists>err. fst (ProcessNetworkUDPPacket ?env ?syn (exampleDatapath UDPSynStart))
      = Returns (Some err)"
    by blast
  have port2: "SourcePort ?synack \<noteq> 53"
    by (simp add: example_defs)
  have t2: "GetUDPType (pk ?env) ?synack = UDPSynAckMask (pk ?env)"
    and s2: "GetUDPType (pk ?env) ?synack \<noteq> UDPSynMask (pk ?env)"
    by (simp_all add: example_defs)
  have m: "udpSourcePortConnectionCache (emptyDatapath UDPSynSend)
      (SourcePortHash (pk ?env) ?synack PacketTypeNetwork) = None"
    by (simp add: example_defs)
  from ProcessNetworkUDPPacket_drops_handshake
    [where env = ?env and p = ?synack and d = "emptyDatapath UDPSynSend"] port2 t2 s2 m
  have 2: "ProcessNetworkUDPPacket ?env ?synack (emptyDatapath UDPSynSend)
      = (Panics, emptyDatapath UDPSynSend)"
    by blast
  from port t sp 1 example_syn_accepted port2 s2 t2 m 2 show ?thesis
    by (intro conjI) simp_all
qed

text \<open>
  C5. What the three processing functions do when the token of a handshake packet fails to
  parse, or parses to nil claims (SYN and SYNACK): each returns an error and emits exactly
  one report of a rejected flow and nothing else. The reason of the report is
  \<open>InvalidToken\<close> only on the SYN path; the SYNACK path passes \<open>MissingToken\<close> and the ACK
  path \<open>PolicyDrop\<close> for the same kind of failure.
\<close>

theorem token_failure_reports_rejected_flow:
  "(fst (ParsePacketToken (tokenAccessor env) (Auth (conns d c)) (ReadUDPToken (pk env) p))
      \<in> {Inl err, Inr None} \<longrightarrow>
      (\<exists>e. fst (processNetworkUDPSynPacket env ctx c p d) = (None, None, Some e)) \<and>
      trace (snd (processNetworkUDPSynPacket env ctx c p d))
        = trace d @ [EvFlowRejected (Some c) (DefaultEndPoint env)
                       (ManagementID (puContexts d ctx)) InvalidToken None None] \<and>
      (\<exists>e. fst (processNetworkUDPSynAckPacket env p ctx c d) = (None, None, Some e)) \<and>
      trace (snd (processNetworkUDPSynAckPacket env p ctx c d))
        = trace d @ [EvFlowRejected None (DefaultEndPoint env)
                       (ManagementID (puContexts d ctx)) MissingToken None None]) \<and>
   (ParseAckToken (tokenAccessor env) (Auth (conns d c)) (ReadUDPToken (pk env) p)
      = (Some err, auth) \<longrightarrow>
      (\<exists>e. fst (processNetworkUDPAckPacket env p ctx c d) = (None, None, Some e)) \<and>
      trace (snd (processNetworkUDPAckPacket env p ctx c d))
        = trace d @ [EvFlowRejected (Some c) (RemoteContextID auth)
                       (ManagementID (puContexts d ctx)) PolicyDrop
                       (ReportFlowPolicy (conns d c)) (PacketFlowPolicy (conns d c))])"
proof (intro conjI impI)
  assume f: "fst (ParsePacketToken (tokenAccessor env) (Auth (conns d c)) (ReadUDPToken (pk env) p))
      \<in> {Inl err, Inr None}"
  obtain res a where pa: "ParsePacketToken (tokenAccessor env) (Auth (conns d c))
      (ReadUDPToken (pk env) p) = (res, a)"
    by (cases "ParsePacketToken (tokenAccessor env) (Auth (conns d c)) (ReadUDPToken (pk env) p)")
  with f have res: "res = Inl err \<or> res = Inr None" by simp
  from pa res show "\<exists>e. fst (processNetworkUDPSynPacket env ctx c p d) = (None, None, Some e)"
    by (auto simp: processNetworkUDPSynPacket_def Let_def)
  from pa res show "trace (snd (processNetworkUDPSynPacket env ctx c p d))
        = trace d @ [EvFlowRejected (Some c) (DefaultEndPoint env)
                       (ManagementID (puContexts d ctx)) InvalidToken None None]"
    by (auto simp: processNetworkUDPSynPacket_def Let_def reportUDPRejectedFlow_def emit_def
        setAuth_def)
  from pa res show "\<exists>e. fst (processNetworkUDPSynAckPacket env p ctx c d) = (None, None, Some e)"
    by (auto simp: processNetworkUDPSynAckPacket_def Let_def)
  from pa res show "trace (snd (processNetworkUDPSynAckPacket env p ctx c d))
        = trace d @ [EvFlowRejected None (DefaultEndPoint env)
                       (ManagementID (puContexts d ctx)) MissingToken None None]"
    by (auto simp: processNetworkUDPSynAckPacket_def Let_def reportUDPRejectedFlow_def emit_def
        setAuth_def)
next
  assume pa: "ParseAckToken (tokenAccessor env) (Auth (conns d c)) (ReadUDPToken (pk env) p)
      = (Some err, auth)"
  then show "\<exists>e. fst (processNetworkUDPAckPacket env p ctx c d) = (None, None, Some e)"
    by (simp add: processNetworkUDPAckPacket_def Let_def)
  from pa show "trace (snd (processNetworkUDPAckPacket env p ctx c d))
        = trace d @ [EvFlowRejected (Some c) (RemoteContextID auth)
                       (ManagementID (puContexts d ctx)) PolicyDrop
                       (ReportFlowPolicy (conns d c)) (PacketFlowPolicy (conns d c))]"
    by (simp add: processNetworkUDPAckPacket_def Let_def reportUDPRejectedFlow_def emit_def
        setAuth_def)
qed

theorem token_failure_reports_rejected_flow_witness:
  "fst (ParsePacketToken (tokenAccessor (exampleEnv False))
          (Auth (conns (exampleDatapath UDPSynSend) 0))
          (ReadUDPToken (pk (exampleEnv False)) (examplePacket 0x40 6000 80)))
     \<in> {Inl ''bad token'', Inr None} \<and>
   ParseAckToken (tokenAccessor (exampleEnv False))
          (Auth (conns (exampleDatapath UDPSynSend) 0))
          (ReadUDPToken (pk (exampleEnv False)) (examplePacket 0x40 6000 80))
     = (Some ''bad signature'', \<lparr>LocalContext = [9], RemoteContextID = ''pu2''\<rparr>) \<and>
   trace (snd (processNetworkUDPSynPacket (exampleEnv False) 0 0 (examplePacket 0x40 6000 80)
                 (exampleDatapath UDPSynSend)))
     = [EvFlowRejected (Some 0) ''default'' ''pu1'' InvalidToken None None] \<and>
   trace (snd (processNetworkUDPAckPacket (exampleEnv False) (examplePacket 0x40 6000 80) 0 0
                 (exampleDatapath UDPSynSend)))
     = [EvFlowRejected (Some 0) ''pu2'' ''pu1'' PolicyDrop None (Some acceptPolicy)]"
proof -
  let ?env = "exampleEnv False" and ?p = "examplePacket 0x40 6000 80"
  let ?d = "exampleDatapath UDPSynSend"
  have f: "fst (ParsePacketToken (tokenAccessor ?env) (Auth (conns ?d 0)) (ReadUDPToken (pk ?env) ?p))
      \<in> {Inl ''bad token'', Inr None}"
    by (simp add: exampleEnv_def exampleTokens_def)
  have a: "ParseAckToken (tokenAccessor ?env) (Auth (conns ?d 0)) (ReadUDPToken (pk ?env) ?p)
      = (Some ''bad signature'', \<lparr>LocalContext = [9], RemoteContextID = ''pu2''\<rparr>)"
    by (simp add: exampleEnv_def exampleTokens_def exampleDatapath_def emptyDatapath_def
        exampleConnection_def)
  have v: "trace ?d = []" "DefaultEndPoint ?env = ''default''"
    "ManagementID (puContexts ?d 0) = ''pu1''"
    "ReportFlowPolicy (conns ?d 0) = None" "PacketFlowPolicy (conns ?d 0) = Some acceptPolicy"
    by (simp_all add: exampleEnv_def exampleDatapath_def emptyDatapath_def exampleContext_def
        exampleConnection_def)
  from token_failure_reports_rejected_flow
    [where env = ?env and d = ?d and c = 0 and p = ?p and ctx = 0
       and err = "''bad token''"] f
  have 1: "trace (snd (processNetworkUDPSynPacket ?env 0 0 ?p ?d))
      = trace ?d @ [EvFlowRejected (Some 0) (DefaultEndPoint ?env)
                      (ManagementID (puContexts ?d 0)) InvalidToken None None]"
    by blast
  from token_failure_reports_rejected_flow
    [where env = ?env and d = ?d and c = 0 and p = ?p and ctx = 0
       and err = "''bad signature''" and auth = "\<lparr>LocalContext = [9], RemoteContextID = ''pu2''\<rparr>"] a
  have 2: "trace (snd (processNetworkUDPAckPacket ?env ?p 0 0 ?d))
      = trace ?d @ [EvFlowRejected (Some 0)
                      (RemoteContextID \<lparr>LocalContext = [9], RemoteContextID = ''pu2''\<rparr>)
                      (ManagementID (puContexts ?d 0)) PolicyDrop
                      (ReportFlowPolicy (conns ?d 0)) (PacketFlowPolicy (conns ?d 0))]"
    by blast
  from f a 1 2 v show ?thesis by simp
qed

text \<open>
  C5, the failing input: a SYNACK whose token does not parse. \<open>ParsePacketToken\<close> returns
  an error, as it does for a SYN, and \<open>processNetworkUDPSynAckPacket\<close> reports the rejected
  flow with the reason \<open>MissingToken\<close> where the SYN path reports \<open>InvalidToken\<close>.
\<close>

theorem synack_bad_token_reports_MissingToken:
  "fst (ParsePacketToken (tokenAccessor (exampleEnv False))
          (Auth (conns (exampleDatapath UDPSynSend) 0))
          (ReadUDPToken (pk (exampleEnv False)) (examplePacket 0x80 6000 5000)))
     = Inl ''bad token'' \<and>
   trace (snd (processNetworkUDPSynAckPacket (exampleEnv False) (examplePacket 0x80 6000 5000) 0 0
                 (exampleDatapath UDPSynSend)))
     = [EvFlowRejected None ''default'' ''pu1'' MissingToken None None] \<and>
   MissingToken \<noteq> InvalidToken"
  by (simp add: processNetworkUDPSynAckPacket_def Let_def reportUDPRejectedFlow_def emit_def
      setAuth_def example_defs)

text \<open>
  C7. When the token of a SYN from the network parses to claims, the claim
  \<open>("@port", decimal destination port)\<close> is appended to the tag store before
  \<open>SearchRcvRules\<close> is called: the policies that decide the packet are those that
  \<open>SearchRcvRules\<close> returns for the extended store. They are the policies of the report
  when the packet policy rejects; otherwise they are recorded in the connection, and the
  claims handed on hold the extended store.
\<close>

theorem processNetworkUDPSynPacket_port_claim:
  assumes "ParsePacketToken (tokenAccessor env) (Auth (conns d c)) (ReadUDPToken (pk env) p)
             = (Inr (Some claims), auth)"
    and "tags = T claims @ [(''@port'', Itoa (unat (DestinationPort p)))]"
    and "SearchRcvRules (puContexts d ctx) tags = (report, pkt)"
    and "processNetworkUDPSynPacket env ctx c p d = (res, d')"
  shows "(Rejected (Action pkt) \<longrightarrow>
            (\<exists>e. res = (None, None, Some e)) \<and>
            trace d' = trace d @ [EvFlowRejected (Some c) (fst (Get (T claims) (TransmitterLabel env)))
                                    (ManagementID (puContexts d ctx)) PolicyDrop report (Some pkt)]) \<and>
         (\<not> Rejected (Action pkt) \<longrightarrow>
            res = (Some pkt, Some (claims\<lparr>T := tags\<rparr>), None) \<and>
            ReportFlowPolicy (conns d' c) = report \<and>
            PacketFlowPolicy (conns d' c) = Some pkt \<and>
            state (conns d' c) = UDPSynReceived \<and>
            trace d' = trace d)"
  using assms
  by (auto simp: processNetworkUDPSynPacket_def Let_def AppendKeyValue_def
      PortNumberLabelString_def reportUDPRejectedFlow_def emit_def setAuth_def SetState_def)

theorem processNetworkUDPSynPacket_port_claim_witness:
  "ParsePacketToken (tokenAccessor (exampleEnv True)) (Auth (conns (emptyDatapath UDPSynStart) 0))
      (ReadUDPToken (pk (exampleEnv True)) (examplePacket 0x40 6000 80))
     = (Inr (Some \<lparr>T = [(''app'', ''web'')]\<rparr>), \<lparr>LocalContext = [9], RemoteContextID = ''pu2''\<rparr>) \<and>
   [(''app'', ''web''), (''@port'', ''80'')]
     = T \<lparr>T = [(''app'', ''web'')]\<rparr> @ [(''@port'', Itoa (unat (DestinationPort (examplePacket 0x40 6000 80))))] \<and>
   SearchRcvRules (puContexts (emptyDatapath UDPSynStart) 0) [(''app'', ''web''), (''@port'', ''80'')]
     = (None, acceptPolicy) \<and>
   SearchRcvRules (puContexts (emptyDatapath UDPSynStart) 0) [(''app'', ''web'')]
     = (None, rejectPolicy) \<and>
   \<not> Rejected (Action acceptPolicy) \<and>
   fst (processNetworkUDPSynPacket (exampleEnv True) 0 0 (examplePacket 0x40 6000 80)
          (emptyDatapath UDPSynStart))
     = (Some acceptPolicy, Some \<lparr>T = [(''app'', ''web''), (''@port'', ''80'')]\<rparr>, None)"
proof -
  let ?env = "exampleEnv True" and ?p = "examplePacket 0x40 6000 80"
  let ?d = "emptyDatapath UDPSynStart"
  let ?claims = "\<lparr>T = [(''app'', ''web'')]\<rparr>"
  let ?tags = "[(''app'', ''web''), (''@port'', ''80'')]"
  have a: "ParsePacketToken (tokenAccessor ?env) (Auth (conns ?d 0)) (ReadUDPToken (pk ?env) ?p)
      = (Inr (Some ?claims), \<lparr>LocalContext = [9], RemoteContextID = ''pu2''\<rparr>)"
    by (simp add: exampleEnv_def exampleTokens_def emptyDatapath_def exampleConnection_def)
  have b: "?tags = T ?claims @ [(''@port'', Itoa (unat (DestinationPort ?p)))]"
    by (simp add: examplePacket_def Itoa.simps digit_def)
  have s: "SearchRcvRules (puContexts ?d 0) ?tags = (None, acceptPolicy)"
    by (simp add: emptyDatapath_def exampleContext_def)
  have s': "SearchRcvRules (puContexts ?d 0) [(''app'', ''web'')] = (None, rejectPolicy)"
    by (simp add: emptyDatapath_def exampleContext_def)
  have n: "\<not> Rejected (Action acceptPolicy)"
    by (simp add: Rejected_def acceptPolicy_def)
  obtain res d' where r: "processNetworkUDPSynPacket ?env 0 0 ?p ?d = (res, d')"
    by (cases "processNetworkUDPSynPacket ?env 0 0 ?p ?d")
  from processNetworkUDPSynPacket_port_claim [OF a b s r] n
  have "res = (Some acceptPolicy, Some (?claims\<lparr>T := ?tags\<rparr>), None)"
    by blast
  with r have "fst (processNetworkUDPSynPacket ?env 0 0 ?p ?d)
      = (Some acceptPolicy, Some \<lparr>T = ?tags\<rparr>, None)"
    by simp
  with a b s s' n show ?thesis by blast
qed

lemma processApplicationUDPSynPacket_queue:
  "PacketQueue (conns (snd (processApplicationUDPSynPacket env p ctx c d)) c')
     = PacketQueue (conns d c')"
  by (simp add: processApplicationUDPSynPacket_def Let_def setAuth_def SetState_def
      writeSocket_def emit_def
      split: prod.split bool.split sum.split go.split)

lemma QueuePackets_fails:
  "copyPacket env p = Inl e \<Longrightarrow> \<exists>msg. QueuePackets env c p d = (Some msg, d)"
  by (simp add: QueuePackets_def)

lemma QueuePackets_queues:
  assumes "copyPacket env p = Inr q"
  shows "fst (QueuePackets env c p d) = None"
    and "PacketQueue (conns (snd (QueuePackets env c p d)) c)
           = drop (length (PacketQueue (conns d c) @ [q]) - PacketQueueBound)
               (PacketQueue (conns d c) @ [q])"
    and "state (conns (snd (QueuePackets env c p d)) c) = state (conns d c)"
  using assms by (simp_all add: QueuePackets_def Let_def emit_def)

lemma QueuePackets_state:
  "QueuePackets env c p d = (e, d2) \<Longrightarrow> state (conns d2 c) = state (conns d c)"
  by (auto simp: QueuePackets_def Let_def emit_def split: sum.splits if_splits)

text \<open>After \<open>QueuePackets\<close> the copy is the last packet of the queue, and the queue holds
  no more packets than its bound.\<close>

lemma QueuePackets_bounded:
  assumes "copyPacket env p = Inr q"
  shows "length (PacketQueue (conns (snd (QueuePackets env c p d)) c)) \<le> PacketQueueBound"
    and "last (PacketQueue (conns (snd (QueuePackets env c p d)) c)) = q"
  using assms by (simp_all add: QueuePackets_def Let_def emit_def PacketQueueBound_def)

lemma processApplicationUDPSynPacket_panics:
  "fst (processApplicationUDPSynPacket env p ctx c d) = Panics \<Longrightarrow>
   clonePacketHeaders env (snd (preApp env d p c (UDPSynMask (pk env)))) = Panics"
  by (simp add: processApplicationUDPSynPacket_def Let_def
      split: prod.splits bool.splits sum.splits go.splits)

text \<open>
  C10. \<open>ProcessApplicationUDPPacket\<close> returns nil only when the destination port is 53 or
  the connection it retrieves is in state \<open>UDPAckProcessed\<close>. For any other connection it
  retrieves: when the packet cannot be copied, that error is returned with the state as it
  was; otherwise the copy of the packet is queued at the end of the packet queue of the
  connection (the oldest packets being dropped beyond the bound of the queue), where it
  still is when the function returns, and the function returns an error. The one exception
  is a connection in state \<open>UDPSynStart\<close> and a packet whose buffer is shorter than the IP
  and UDP headers: cloning the headers then panics.
\<close>

theorem ProcessApplicationUDPPacket_queues_or_passes:
  "(fst (ProcessApplicationUDPPacket env p d) = Returns None \<longrightarrow>
      DestinationPort p = 53 \<or>
      (\<exists>c d1. appUDPRetrieveState env p d = (Some c, None, d1) \<and>
               state (conns d1 c) = UDPAckProcessed)) \<and>
   (DestinationPort p \<noteq> 53 \<and> appUDPRetrieveState env p d = (Some c, None, d1) \<and>
    state (conns d1 c) \<noteq> UDPAckProcessed \<longrightarrow>
      (case copyPacket env p of
         Inl e \<Rightarrow>
           (\<exists>msg. ProcessApplicationUDPPacket env p d = (Returns (Some msg), d1))
       | Inr q \<Rightarrow>
           PacketQueue (conns (snd (ProcessApplicationUDPPacket env p d)) c)
             = drop (length (PacketQueue (conns d1 c) @ [q]) - PacketQueueBound)
                 (PacketQueue (conns d1 c) @ [q]) \<and>
           ((\<exists>msg. fst (ProcessApplicationUDPPacket env p d) = Returns (Some msg)) \<or>
            fst (ProcessApplicationUDPPacket env p d) = Panics \<and>
            state (conns d1 c) = UDPSynStart \<and>
            clonePacketHeaders env
              (snd (preApp env (snd (QueuePackets env c p d1)) p c (UDPSynMask (pk env))))
              = Panics)))"
proof (intro conjI impI)
  assume "fst (ProcessApplicationUDPPacket env p d) = Returns None"
  then show "DestinationPort p = 53 \<or>
      (\<exists>c d1. appUDPRetrieveState env p d = (Some c, None, d1) \<and>
               state (conns d1 c) = UDPAckProcessed)"
    by (auto simp: ProcessApplicationUDPPacket_def dest: QueuePackets_state
        split: if_splits prod.splits option.splits UDPFlowState.splits go.splits bool.splits)
next
  assume h: "DestinationPort p \<noteq> 53 \<and> appUDPRetrieveState env p d = (Some c, None, d1) \<and>
    state (conns d1 c) \<noteq> UDPAckProcessed"
  let ?r = "ProcessApplicationUDPPacket env p d"
  show "case copyPacket env p of
         Inl e \<Rightarrow> (\<exists>msg. ?r = (Returns (Some msg), d1))
       | Inr q \<Rightarrow>
           PacketQueue (conns (snd ?r) c)
             = drop (length (PacketQueue (conns d1 c) @ [q]) - PacketQueueBound)
                 (PacketQueue (conns d1 c) @ [q]) \<and>
           ((\<exists>msg. fst ?r = Returns (Some msg)) \<or>
            fst ?r = Panics \<and> state (conns d1 c) = UDPSynStart \<and>
            clonePacketHeaders env
              (snd (preApp env (snd (QueuePackets env c p d1)) p c (UDPSynMask (pk env))))
              = Panics)"
  proof (cases "copyPacket env p")
    case (Inl e)
    from QueuePackets_fails [OF Inl, of c d1] obtain msg where
      "QueuePackets env c p d1 = (Some msg, d1)" by auto
    with h Inl show ?thesis
      by (simp add: ProcessApplicationUDPPacket_def)
  next
    case (Inr q)
    obtain e2 d2 where qp0: "QueuePackets env c p d1 = (e2, d2)"
      by (cases "QueuePackets env c p d1")
    let ?syn = "processApplicationUDPSynPacket env p (Context (conns d2 c)) c d2"
    from QueuePackets_queues [OF Inr, of c d1] qp0
    have qp: "QueuePackets env c p d1 = (None, d2)"
      and q2: "PacketQueue (conns d2 c)
           = drop (length (PacketQueue (conns d1 c) @ [q]) - PacketQueueBound)
               (PacketQueue (conns d1 c) @ [q])"
      and s2: "state (conns d2 c) = state (conns d1 c)"
      by simp_all
    have d2: "snd (QueuePackets env c p d1) = d2"
      using qp by simp
    have run: "?r = (case state (conns d1 c) of
                       UDPSynStart \<Rightarrow>
                         (case ?syn of
                            (Panics, d3) \<Rightarrow> (Panics, d3)
                          | (Returns (Some err), d3) \<Rightarrow>
                              (Returns (Some (''Unable to send UDP Syn packet: '' @ err)), d3)
                          | (Returns None, d3) \<Rightarrow>
                              (Returns (Some ''Packets cloned. Dropping the original packet''), d3))
                     | _ \<Rightarrow> (Returns (Some ''Packets cloned. Dropping the original packet''), d2))"
      using h qp s2
      by (simp add: ProcessApplicationUDPPacket_def split: UDPFlowState.splits)
    show ?thesis
    proof (cases "state (conns d1 c) = UDPSynStart")
      case False
      with run have "?r = (Returns (Some ''Packets cloned. Dropping the original packet''), d2)"
        by (simp split: UDPFlowState.splits)
      with q2 Inr show ?thesis by (simp add: d2)
    next
      case True
      obtain res d3 where syn: "?syn = (res, d3)" by (cases ?syn)
      from processApplicationUDPSynPacket_queue [of env p "Context (conns d2 c)" c d2 c] syn
      have q3: "PacketQueue (conns d3 c) = PacketQueue (conns d2 c)" by simp
      from run True syn have r: "snd ?r = d3"
        and f: "fst ?r = (case res of Panics \<Rightarrow> Panics
                  | Returns (Some err) \<Rightarrow> Returns (Some (''Unable to send UDP Syn packet: '' @ err))
                  | Returns None \<Rightarrow> Returns (Some ''Packets cloned. Dropping the original packet''))"
        by (simp_all split: go.splits option.splits)
      have "(\<exists>msg. fst ?r = Returns (Some msg)) \<or>
            fst ?r = Panics \<and> state (conns d1 c) = UDPSynStart \<and>
            clonePacketHeaders env (snd (preApp env d2 p c (UDPSynMask (pk env)))) = Panics"
      proof (cases res)
        case Panics
        with syn have "fst ?syn = Panics" by simp
        from processApplicationUDPSynPacket_panics [OF this] f Panics True
        show ?thesis by simp
      next
        case (Returns x)
        with f show ?thesis by (cases x) simp_all
      qed
      with r q3 q2 Inr show ?thesis by (simp add: d2)
    qed
  qed
qed

theorem ProcessApplicationUDPPacket_queues_or_passes_witness:
  "fst (ProcessApplicationUDPPacket (exampleEnv True) (examplePacket 0 5000 80)
          (exampleDatapath UDPAckProcessed)) = Returns None \<and>
   (DestinationPort (examplePacket 0 5000 80) = 53 \<or>
    (\<exists>c d1. appUDPRetrieveState (exampleEnv True) (examplePacket 0 5000 80)
                (exampleDatapath UDPAckProcessed) = (Some c, None, d1) \<and>
             state (conns d1 c) = UDPAckProcessed)) \<and>
   DestinationPort (examplePacket 0 5000 80) \<noteq> 53 \<and>
   appUDPRetrieveState (exampleEnv True) (examplePacket 0 5000 80) (exampleDatapath UDPSynSend)
     = (Some 0, None, exampleDatapath UDPSynSend) \<and>
   state (conns (exampleDatapath UDPSynSend) 0) \<noteq> UDPAckProcessed \<and>
   copyPacket (exampleEnv True) (examplePacket 0 5000 80) = Inr (examplePacket 0 5000 80) \<and>
   fst (ProcessApplicationUDPPacket (exampleEnv True) (examplePacket 0 5000 80)
          (exampleDatapath UDPSynSend))
     = Returns (Some ''Packets cloned. Dropping the original packet'') \<and>
   PacketQueue (conns (snd (ProcessApplicationUDPPacket (exampleEnv True) (examplePacket 0 5000 80)
                              (exampleDatapath UDPSynSend))) 0)
     = PacketQueue (conns (exampleDatapath UDPSynSend) 0) @ [examplePacket 0 5000 80]"
proof -
  let ?env = "exampleEnv True" and ?p = "examplePacket 0 5000 80"
  let ?r = "ProcessApplicationUDPPacket ?env ?p (exampleDatapath UDPSynSend)"
  have port: "DestinationPort ?p \<noteq> 53"
    by (simp add: examplePacket_def)
  have ret: "\<And>s. appUDPRetrieveState ?env ?p (exampleDatapath s) = (Some 0, None, exampleDatapath s)"
    by (simp add: appUDPRetrieveState_def GetReset_def exampleEnv_def examplePacketLib_def
        exampleDatapath_def emptyDatapath_def)
  have st: "\<And>s. state (conns (exampleDatapath s) 0) = s"
    by (simp add: exampleDatapath_def emptyDatapath_def exampleConnection_def)
  have len: "length (PacketQueue (conns (exampleDatapath UDPSynSend) 0)) = 2"
    by (simp add: exampleDatapath_def emptyDatapath_def exampleConnection_def)
  have cp: "copyPacket ?env ?p = Inr ?p"
    by (simp add: exampleEnv_def)
  have svc: "service ?env = None"
    by (simp add: exampleEnv_def)
  have nil: "fst (ProcessApplicationUDPPacket ?env ?p (exampleDatapath UDPAckProcessed)) = Returns None"
    using port svc by (simp add: ProcessApplicationUDPPacket_def ret st postApp_def)
  have ns: "state (conns (exampleDatapath UDPSynSend) 0) \<noteq> UDPAckProcessed"
    and nstart: "state (conns (exampleDatapath UDPSynSend) 0) \<noteq> UDPSynStart"
    by (simp_all add: st)
  note thm1 = ProcessApplicationUDPPacket_queues_or_passes
    [where env = ?env and p = ?p and d = "exampleDatapath UDPAckProcessed"]
  note thm2 = ProcessApplicationUDPPacket_queues_or_passes
    [where env = ?env and p = ?p and d = "exampleDatapath UDPSynSend" and c = 0
       and ?d1.0 = "exampleDatapath UDPSynSend"]
  from thm1 nil have 1: "DestinationPort ?p = 53 \<or>
    (\<exists>c d1. appUDPRetrieveState ?env ?p (exampleDatapath UDPAckProcessed) = (Some c, None, d1) \<and>
             state (conns d1 c) = UDPAckProcessed)"
    by blast
  from thm2 port ret [of UDPSynSend] ns
  have "case copyPacket ?env ?p of
         Inl e \<Rightarrow> (\<exists>msg. ?r = (Returns (Some msg), exampleDatapath UDPSynSend))
       | Inr q \<Rightarrow>
           PacketQueue (conns (snd ?r) 0)
             = drop (length (PacketQueue (conns (exampleDatapath UDPSynSend) 0) @ [q]) - PacketQueueBound)
                 (PacketQueue (conns (exampleDatapath UDPSynSend) 0) @ [q]) \<and>
           ((\<exists>msg. fst ?r = Returns (Some msg)) \<or>
            fst ?r = Panics \<and> state (conns (exampleDatapath UDPSynSend) 0) = UDPSynStart \<and>
            clonePacketHeaders ?env
              (snd (preApp ?env (snd (QueuePackets ?env 0 ?p (exampleDatapath UDPSynSend))) ?p 0
                      (UDPSynMask (pk ?env))))
              = Panics)"
    by blast
  with cp nstart have 3: "PacketQueue (conns (snd ?r) 0)
      = drop (length (PacketQueue (conns (exampleDatapath UDPSynSend) 0) @ [?p]) - PacketQueueBound)
          (PacketQueue (conns (exampleDatapath UDPSynSend) 0) @ [?p])"
    and 4: "\<exists>msg. fst ?r = Returns (Some msg)"
    by simp_all
  from 3 len have 5: "PacketQueue (conns (snd ?r) 0)
      = PacketQueue (conns (exampleDatapath UDPSynSend) 0) @ [?p]"
    by (simp add: PacketQueueBound_def)
  have 6: "fst ?r = Returns (Some ''Packets cloned. Dropping the original packet'')"
    using port cp by (simp add: ProcessApplicationUDPPacket_def ret st QueuePackets_def Let_def
        emit_def)
  from nil 1 port ret [of UDPSynSend] ns cp 5 6 show ?thesis by blast
qed

lemma transmitQueued_trace:
  "\<exists>ws. trace (snd (transmitQueued env c qs i err d)) = trace d @ map EvWriteSocket ws \<and>
        length ws \<le> length qs \<and>
        (\<forall>k < length ws. \<exists>dk pk'. postApp env dk (qs ! k) c = (True, pk') \<and> ws ! k = Buffer pk') \<and>
        (length ws = length qs \<or>
         (\<exists>dn pn. postApp env dn (qs ! length ws) c = (False, pn)) \<and>
         fst (transmitQueued env c qs i err d)
           = Some ''Encryption failed for queued application packet'') \<and>
        (service env = None \<longrightarrow> ws = map Buffer qs)"
proof (induction qs arbitrary: i err d)
  case Nil
  show ?case by simp
next
  case (Cons q qs)
  obtain ok p1 where h: "postApp env d q c = (ok, p1)"
    by (cases "postApp env d q c")
  let ?d1 = "d\<lparr>conns := (conns d)(c := (conns d c)
                 \<lparr>PacketQueue := (PacketQueue (conns d c))[i := p1]\<rparr>)\<rparr>"
  show ?case
  proof (cases ok)
    case False
    with h have 1: "trace (snd (transmitQueued env c (q # qs) i err d)) = trace d @ map EvWriteSocket []"
      and 2: "fst (transmitQueued env c (q # qs) i err d)
           = Some ''Encryption failed for queued application packet''"
      by simp_all
    from h False have 3: "service env \<noteq> None"
      by (cases "service env") (auto simp: postApp_def)
    from h False have 4: "\<exists>dn pn. postApp env dn ((q # qs) ! length ([]::bytes list)) c = (False, pn)"
      by auto
    from 1 2 3 4 show ?thesis
      by (intro exI [of _ "[]"]) simp
  next
    case True
    let ?d2 = "emit (EvWriteSocket (Buffer p1)) ?d1"
    let ?e2 = "WriteSocket env ?d1 (Buffer p1)"
    from Cons.IH [of "Suc i" ?e2 ?d2]
    obtain ws where
      tr: "trace (snd (transmitQueued env c qs (Suc i) ?e2 ?d2)) = trace ?d2 @ map EvWriteSocket ws"
      and len: "length ws \<le> length qs"
      and idx: "\<forall>k < length ws. \<exists>dk pk'. postApp env dk (qs ! k) c = (True, pk') \<and> ws ! k = Buffer pk'"
      and stop: "length ws = length qs \<or>
         (\<exists>dn pn. postApp env dn (qs ! length ws) c = (False, pn)) \<and>
         fst (transmitQueued env c qs (Suc i) ?e2 ?d2)
           = Some ''Encryption failed for queued application packet''"
      and all: "service env = None \<longrightarrow> ws = map Buffer qs"
      by (elim exE conjE)
    from h True have unf: "transmitQueued env c (q # qs) i err d
        = transmitQueued env c qs (Suc i) ?e2 ?d2"
      by (simp add: writeSocket_def Let_def)
    from tr have 1: "trace (snd (transmitQueued env c (q # qs) i err d))
        = trace d @ map EvWriteSocket (Buffer p1 # ws)"
      unfolding unf by (simp add: emit_def)
    have 2: "length (Buffer p1 # ws) \<le> length (q # qs)"
      using len by simp
    have 3: "\<forall>k < length (Buffer p1 # ws).
        \<exists>dk pk'. postApp env dk ((q # qs) ! k) c = (True, pk') \<and> (Buffer p1 # ws) ! k = Buffer pk'"
    proof (intro allI impI)
      fix k assume k: "k < length (Buffer p1 # ws)"
      show "\<exists>dk pk'. postApp env dk ((q # qs) ! k) c = (True, pk') \<and> (Buffer p1 # ws) ! k = Buffer pk'"
      proof (cases k)
        case 0
        with h True show ?thesis by (intro exI [of _ d] exI [of _ p1]) simp
      next
        case (Suc j)
        with k idx show ?thesis by simp
      qed
    qed
    have 4: "length (Buffer p1 # ws) = length (q # qs) \<or>
         (\<exists>dn pn. postApp env dn ((q # qs) ! length (Buffer p1 # ws)) c = (False, pn)) \<and>
         fst (transmitQueued env c (q # qs) i err d)
           = Some ''Encryption failed for queued application packet''"
      using stop unfolding unf by simp
    have 5: "service env = None \<longrightarrow> Buffer p1 # ws = map Buffer (q # qs)"
      using all h by (cases "service env") (auto simp: postApp_def)
    from 1 2 3 4 5 show ?thesis
      by (intro exI [of _ "Buffer p1 # ws"] conjI)
  qed
qed

text \<open>
  C3. \<open>sendUDPAckPacket\<close> for a connection that is not a service connection. When the
  ACK token is created, the NAT entry of the packet is found and splits at a colon into an
  address and a port that \<open>Atoi\<close> reads, the events of the call are, in this order: the
  write of the ACK packet, the update of the conntrack mark, and then the writes of the
  queued packets. The k-th of these writes is the buffer of the k-th packet of the queue as
  the post-service hook lets it through, so the order of the queue is kept; the writes end
  before the end of the queue only at a packet that the hook refuses, and then the error
  of the encryption is returned; without a service every queued packet is written. In
  every other case nothing is sent.
\<close>

theorem sendUDPAckPacket_mark_before_queued:
  assumes "\<not> ServiceConnection (conns d c)"
    and "sendUDPAckPacket env p ctx c d = (res, d')"
  shows "(CreateAckPacketToken (tokenAccessor env) (puContexts d ctx) (Auth (conns d c))
            = (Inr udpData, auth) \<and>
          GetReset (udpNatConnectionTracker d) (SourcePortHash (pk env) p PacketTypeNetwork)
            = Inr destIPPort \<and>
          Split destIPPort CHR '':'' = destIP # portString # others \<and>
          Atoi env portString = Inr destPort \<and>
          ack = UDPTokenAttach (pk env)
                  (CreateReverseFlowPacket (pk env) p (ParseIP env destIP) (word_of_int destPort))
                  (CreateUDPAuthMarker (UDPAckMask (pk env))) udpData \<longrightarrow>
            (\<exists>ws. trace d' = trace d @
                     [EvWriteSocket (Buffer ack),
                      EvConntrackTableUpdateMark destIP (IPString env (SourceAddress ack))
                        (IPProto ack) (word_of_int destPort) (SourcePort ack) (DefaultConnMark env)]
                     @ map EvWriteSocket ws \<and>
                  length ws \<le> length (PacketQueue (conns d c)) \<and>
                  (\<forall>k < length ws. \<exists>dk pk'.
                     postApp env dk (PacketQueue (conns d c) ! k) c = (True, pk') \<and>
                     ws ! k = Buffer pk') \<and>
                  (length ws = length (PacketQueue (conns d c)) \<or>
                   (\<exists>dn pn. postApp env dn (PacketQueue (conns d c) ! length ws) c = (False, pn)) \<and>
                   res = Returns (Some ''Encryption failed for queued application packet'')) \<and>
                  (service env = None \<longrightarrow> ws = map Buffer (PacketQueue (conns d c))))) \<and>
         (trace d' \<noteq> trace d \<longrightarrow>
            (\<exists>udpData auth destIPPort destIP portString others destPort.
               CreateAckPacketToken (tokenAccessor env) (puContexts d ctx) (Auth (conns d c))
                 = (Inr udpData, auth) \<and>
               GetReset (udpNatConnectionTracker d) (SourcePortHash (pk env) p PacketTypeNetwork)
                 = Inr destIPPort \<and>
               Split destIPPort CHR '':'' = destIP # portString # others \<and>
               Atoi env portString = Inr destPort))"
proof (intro conjI impI)
  assume ok: "CreateAckPacketToken (tokenAccessor env) (puContexts d ctx) (Auth (conns d c))
            = (Inr udpData, auth) \<and>
          GetReset (udpNatConnectionTracker d) (SourcePortHash (pk env) p PacketTypeNetwork)
            = Inr destIPPort \<and>
          Split destIPPort CHR '':'' = destIP # portString # others \<and>
          Atoi env portString = Inr destPort \<and>
          ack = UDPTokenAttach (pk env)
                  (CreateReverseFlowPacket (pk env) p (ParseIP env destIP) (word_of_int destPort))
                  (CreateUDPAuthMarker (UDPAckMask (pk env))) udpData"
  let ?d1 = "setAuth c auth d"
  let ?d3 = "SetState c UDPAckProcessed (emit (EvWriteSocket (Buffer ack)) ?d1)"
  let ?ev = "EvConntrackTableUpdateMark destIP (IPString env (SourceAddress ack))
                (IPProto ack) (word_of_int destPort) (SourcePort ack) (DefaultConnMark env)"
  let ?err = "ConntrackTableUpdateMark env ?d3 destIP (IPString env (SourceAddress ack))
                (IPProto ack) (word_of_int destPort) (SourcePort ack) (DefaultConnMark env)"
  let ?d4 = "emit ?ev ?d3"
  let ?Q = "PacketQueue (conns d c)"
  have nat1: "udpNatConnectionTracker ?d1 = udpNatConnectionTracker d"
    by (simp add: setAuth_def)
  have sc: "\<not> ServiceConnection (conns ?d3 c)"
    using assms(1) by (simp add: SetState_def emit_def setAuth_def)
  have q4: "PacketQueue (conns ?d4 c) = ?Q"
    by (simp add: SetState_def emit_def setAuth_def)
  have t4: "trace ?d4 = trace d @ [EvWriteSocket (Buffer ack), ?ev]"
    by (simp add: SetState_def emit_def setAuth_def)
  have run: "sendUDPAckPacket env p ctx c d =
      (Returns (fst (transmitQueued env c ?Q 0 ?err ?d4)), snd (transmitQueued env c ?Q 0 ?err ?d4))"
    using ok sc nat1 q4
    by (simp add: sendUDPAckPacket_def Let_def writeSocket_def conntrackUpdateMark_def split_def)
  with assms(2) have res: "res = Returns (fst (transmitQueued env c ?Q 0 ?err ?d4))"
    and d': "d' = snd (transmitQueued env c ?Q 0 ?err ?d4)"
    by simp_all
  from transmitQueued_trace [of env c ?Q 0 ?err ?d4]
  obtain ws where
    1: "trace (snd (transmitQueued env c ?Q 0 ?err ?d4)) = trace ?d4 @ map EvWriteSocket ws"
    and 2: "length ws \<le> length ?Q"
    and 3: "\<forall>k < length ws. \<exists>dk pk'. postApp env dk (?Q ! k) c = (True, pk') \<and> ws ! k = Buffer pk'"
    and 4: "length ws = length ?Q \<or>
         (\<exists>dn pn. postApp env dn (?Q ! length ws) c = (False, pn)) \<and>
         fst (transmitQueued env c ?Q 0 ?err ?d4)
           = Some ''Encryption failed for queued application packet''"
    and 5: "service env = None \<longrightarrow> ws = map Buffer ?Q"
    by (elim exE conjE)
  from 1 have tr': "trace d' = trace d @ [EvWriteSocket (Buffer ack), ?ev] @ map EvWriteSocket ws"
    unfolding d' t4 by simp
  from 4 have st': "length ws = length ?Q \<or>
         (\<exists>dn pn. postApp env dn (?Q ! length ws) c = (False, pn)) \<and>
         res = Returns (Some ''Encryption failed for queued application packet'')"
    unfolding res by simp
  from tr' 2 3 st' 5
  show "\<exists>ws. trace d' = trace d @ [EvWriteSocket (Buffer ack), ?ev] @ map EvWriteSocket ws \<and>
                  length ws \<le> length ?Q \<and>
                  (\<forall>k < length ws. \<exists>dk pk'.
                     postApp env dk (?Q ! k) c = (True, pk') \<and> ws ! k = Buffer pk') \<and>
                  (length ws = length ?Q \<or>
                   (\<exists>dn pn. postApp env dn (?Q ! length ws) c = (False, pn)) \<and>
                   res = Returns (Some ''Encryption failed for queued application packet'')) \<and>
                  (service env = None \<longrightarrow> ws = map Buffer ?Q)"
    by (intro exI [of _ ws] conjI)
next
  assume sent: "trace d' \<noteq> trace d"
  obtain tok auth where tk: "CreateAckPacketToken (tokenAccessor env) (puContexts d ctx)
      (Auth (conns d c)) = (tok, auth)"
    by (cases "CreateAckPacketToken (tokenAccessor env) (puContexts d ctx) (Auth (conns d c))")
  let ?d1 = "setAuth c auth d"
  have t1: "trace ?d1 = trace d" and nat1: "udpNatConnectionTracker ?d1 = udpNatConnectionTracker d"
    by (simp_all add: setAuth_def)
  let ?goal = "\<exists>udpData auth destIPPort destIP portString others destPort.
               CreateAckPacketToken (tokenAccessor env) (puContexts d ctx) (Auth (conns d c))
                 = (Inr udpData, auth) \<and>
               GetReset (udpNatConnectionTracker d) (SourcePortHash (pk env) p PacketTypeNetwork)
                 = Inr destIPPort \<and>
               Split destIPPort CHR '':'' = destIP # portString # others \<and>
               Atoi env portString = Inr destPort"
  show ?goal
  proof (cases tok)
    case (Inl e)
    with assms(2) tk t1 sent show ?thesis by (simp add: sendUDPAckPacket_def Let_def split_def)
  next
    case (Inr udpData)
    show ?thesis
    proof (cases "GetReset (udpNatConnectionTracker d) (SourcePortHash (pk env) p PacketTypeNetwork)")
      case (Inl e)
      with assms(2) tk t1 nat1 Inr sent show ?thesis
        by (simp add: sendUDPAckPacket_def Let_def split_def)
    next
      case nt: (Inr destIPPort)
      show ?thesis
      proof (cases "Split destIPPort CHR '':''")
        case Nil
        with assms(2) tk t1 nat1 Inr nt sent show ?thesis
          by (simp add: sendUDPAckPacket_def Let_def split_def)
      next
        case (Cons destIP rest)
        show ?thesis
        proof (cases rest)
          case Nil
          with assms(2) tk t1 nat1 Inr nt Cons sent show ?thesis
            by (simp add: sendUDPAckPacket_def Let_def split_def)
        next
          case sp: (Cons portString others)
          show ?thesis
          proof (cases "Atoi env portString")
            case (Inl e)
            with assms(2) tk t1 nat1 Inr nt Cons sp sent show ?thesis
              by (simp add: sendUDPAckPacket_def Let_def split_def)
          next
            case port: (Inr destPort)
            from tk Inr nt Cons sp port show ?thesis by blast
          qed
        qed
      qed
    qed
  qed
qed

theorem sendUDPAckPacket_mark_before_queued_witness:
  "\<not> ServiceConnection (conns (exampleDatapath UDPSynSend) 0) \<and>
   CreateAckPacketToken (tokenAccessor (exampleEnv True)) (puContexts (exampleDatapath UDPSynSend) 0)
       (Auth (conns (exampleDatapath UDPSynSend) 0))
     = (Inr [3], \<lparr>LocalContext = [9], RemoteContextID = ''pu2''\<rparr>) \<and>
   GetReset (udpNatConnectionTracker (exampleDatapath UDPSynSend))
       (SourcePortHash (pk (exampleEnv True)) (examplePacket 0x80 5000 80) PacketTypeNetwork)
     = Inr ''10.0.0.2:5000'' \<and>
   Split ''10.0.0.2:5000'' CHR '':'' = [''10.0.0.2'', ''5000''] \<and>
   Atoi (exampleEnv True) ''5000'' = Inr 5000 \<and>
   trace (snd (sendUDPAckPacket (exampleEnv True) (examplePacket 0x80 5000 80) 0 0
                 (exampleDatapath UDPSynSend))) =
     [EvWriteSocket (replicate 28 0 @ CreateUDPAuthMarker 0xC0 @ [3]),
      EvConntrackTableUpdateMark ''10.0.0.2'' ''10.1.2.3'' 17 5000 80 0xEEEE,
      EvWriteSocket (replicate 28 0 @ [1, 1]), EvWriteSocket (replicate 28 0 @ [2, 2])] \<and>
   sendUDPAckPacket serviceEnv (examplePacket 0x80 5000 80) 0 0 (exampleDatapath UDPSynSend) =
     (Returns (Some ''Encryption failed for queued application packet''),
      snd (sendUDPAckPacket serviceEnv (examplePacket 0x80 5000 80) 0 0 (exampleDatapath UDPSynSend))) \<and>
   trace (snd (sendUDPAckPacket serviceEnv (examplePacket 0x80 5000 80) 0 0
                 (exampleDatapath UDPSynSend))) =
     [EvWriteSocket (replicate 28 0 @ CreateUDPAuthMarker 0xC0 @ [3]),
      EvConntrackTableUpdateMark ''10.0.0.2'' ''10.1.2.3'' 17 5000 80 0xEEEE,
      EvWriteSocket (replicate 28 0 @ [1, 1])]"
proof -
  let ?env = "exampleEnv True" and ?p = "examplePacket 0x80 5000 80"
  let ?d = "exampleDatapath UDPSynSend"
  let ?r = "sendUDPAckPacket ?env ?p 0 0 ?d"
  let ?auth = "\<lparr>LocalContext = [9], RemoteContextID = ''pu2''\<rparr>"
  let ?ack = "UDPTokenAttach (pk ?env)
      (CreateReverseFlowPacket (pk ?env) ?p (ParseIP ?env ''10.0.0.2'') (word_of_int 5000))
      (CreateUDPAuthMarker (UDPAckMask (pk ?env))) [3]"
  have sc: "\<not> ServiceConnection (conns ?d 0)"
    by (simp add: example_defs)
  have tk: "CreateAckPacketToken (tokenAccessor ?env) (puContexts ?d 0) (Auth (conns ?d 0))
      = (Inr [3], ?auth)"
    by (simp add: exampleEnv_def exampleTokens_def exampleDatapath_def emptyDatapath_def
        exampleConnection_def)
  have nt: "GetReset (udpNatConnectionTracker ?d) (SourcePortHash (pk ?env) ?p PacketTypeNetwork)
      = Inr ''10.0.0.2:5000''"
    by (simp add: GetReset_def exampleEnv_def examplePacketLib_def exampleDatapath_def
        emptyDatapath_def)
  have sp: "Split ''10.0.0.2:5000'' CHR '':'' = ''10.0.0.2'' # ''5000'' # []"
    by simp
  have at: "Atoi ?env ''5000'' = Inr 5000"
    by (simp add: exampleEnv_def)
  have tr0: "trace ?d = []"
    by (simp add: example_defs)
  have svc: "service ?env = None"
    by (simp add: exampleEnv_def)
  have q: "map Buffer (PacketQueue (conns ?d 0)) = [replicate 28 0 @ [1, 1], replicate 28 0 @ [2, 2]]"
    by (simp add: example_defs)
  have ackb: "Buffer ?ack = replicate 28 0 @ CreateUDPAuthMarker 0xC0 @ [3]"
    by (simp add: exampleEnv_def examplePacketLib_def examplePacket_def)
  have ackf: "IPString ?env (SourceAddress ?ack) = ''10.1.2.3''" "IPProto ?ack = 17"
    "SourcePort ?ack = 80" "DefaultConnMark ?env = 0xEEEE" "(word_of_int 5000 :: 16 word) = 5000"
    by (simp_all add: exampleEnv_def examplePacketLib_def examplePacket_def)
  from sendUDPAckPacket_mark_before_queued
    [where env = ?env and p = ?p and ctx = 0 and c = 0 and d = ?d and res = "fst ?r"
       and d' = "snd ?r" and udpData = "[3]" and auth = ?auth and destIPPort = "''10.0.0.2:5000''"
       and destIP = "''10.0.0.2''" and portString = "''5000''" and others = "[]"
       and destPort = 5000 and ack = ?ack] sc tk nt sp at
  have "\<exists>ws. trace (snd ?r) = trace ?d @
                     [EvWriteSocket (Buffer ?ack),
                      EvConntrackTableUpdateMark ''10.0.0.2'' (IPString ?env (SourceAddress ?ack))
                        (IPProto ?ack) (word_of_int 5000) (SourcePort ?ack) (DefaultConnMark ?env)]
                     @ map EvWriteSocket ws \<and>
                  (service ?env = None \<longrightarrow> ws = map Buffer (PacketQueue (conns ?d 0)))"
    by auto
  with svc have "trace (snd ?r) = trace ?d @
                     [EvWriteSocket (Buffer ?ack),
                      EvConntrackTableUpdateMark ''10.0.0.2'' (IPString ?env (SourceAddress ?ack))
                        (IPProto ?ack) (word_of_int 5000) (SourcePort ?ack) (DefaultConnMark ?env)]
                     @ map EvWriteSocket (map Buffer (PacketQueue (conns ?d 0)))"
    by auto
  then have 1: "trace (snd ?r) =
     [EvWriteSocket (replicate 28 0 @ CreateUDPAuthMarker 0xC0 @ [3]),
      EvConntrackTableUpdateMark ''10.0.0.2'' ''10.1.2.3'' 17 5000 80 0xEEEE,
      EvWriteSocket (replicate 28 0 @ [1, 1]), EvWriteSocket (replicate 28 0 @ [2, 2])]"
    using q tr0 ackb ackf by simp
  let ?s = "sendUDPAckPacket serviceEnv ?p 0 0 ?d"
  have 2: "fst ?s = Returns (Some ''Encryption failed for queued application packet'')"
    by (simp add: sendUDPAckPacket_def serviceEnv_def exampleService_def example_defs GetReset_def
        setAuth_def SetState_def writeSocket_def conntrackUpdateMark_def emit_def postApp_def Let_def)
  have 3: "trace (snd ?s) =
     [EvWriteSocket (replicate 28 0 @ CreateUDPAuthMarker 0xC0 @ [3]),
      EvConntrackTableUpdateMark ''10.0.0.2'' ''10.1.2.3'' 17 5000 80 0xEEEE,
      EvWriteSocket (replicate 28 0 @ [1, 1])]"
    by (simp add: sendUDPAckPacket_def serviceEnv_def exampleService_def example_defs GetReset_def
        setAuth_def SetState_def writeSocket_def conntrackUpdateMark_def emit_def postApp_def Let_def)
  from 2 have res2: "?s = (Returns (Some ''Encryption failed for queued application packet''), snd ?s)"
    by (simp add: prod_eq_iff)
  from sc tk nt sp at 1 res2 3 show ?thesis by (intro conjI) simp_all
qed

lemma addPortRules_addRules:
  "addPortRules env address ports acls = addRules env (map (dnsRule address) ports) acls"
  by (induction ports arbitrary: acls) (simp_all add: addRules_def)

lemma addRules_append:
  "addRules env (xs @ ys) acls = addRules env ys (addRules env xs acls)"
  by (simp add: addRules_def)

lemma addAnswerRules_addRules:
  "addAnswerRules env dnsACLs answers acls = addRules env (dnsRules_spec env dnsACLs answers) acls"
proof (induction answers arbitrary: acls)
  case Nil
  show ?case by (simp add: dnsRules_spec_def addRules_def)
next
  case (Cons t ts)
  have hd: "dnsRules_spec env dnsACLs (t # ts) =
      (if DataLength t = 4 then
         (case dnsACLs (Name t) of None \<Rightarrow> []
          | Some val \<Rightarrow> map (dnsRule (IPString env (IP t))) (Split val CHR '','')) else [])
      @ dnsRules_spec env dnsACLs ts"
    by (simp add: dnsRules_spec_def dnsRule_def split: option.splits)
  show ?case
    unfolding hd addRules_append
    by (simp add: Cons.IH addPortRules_addRules addRules_def split: option.splits)
qed

lemma AddRule_dnsRule:
  "AddRule ar rs (dnsRule address port) acls =
     (fst (ar (dnsRule address port) (accept acls)),
      \<lparr>reject = rs (reject acls), accept = rs (snd (ar (dnsRule address port) (accept acls))),
       observe = rs (observe acls)\<rparr>)"
  by (simp add: AddRule_def dnsRule_def IsObserveApply_def Accepted_def split_def Let_def)

lemma dnsRules_spec_policy:
  "rule \<in> set (dnsRules_spec env dnsACLs answers) \<Longrightarrow>
   Accepted (Action (Policy rule)) \<and> \<not> IsObserveApply (ObserveAction (Policy rule))"
  by (auto simp: dnsRules_spec_def Accepted_def IsObserveApply_def split: option.splits)

lemma AddRule_accept:
  assumes "Accepted (Action (Policy rule))" and "\<not> IsObserveApply (ObserveAction (Policy rule))"
  shows "snd (AddRule ar rs rule acls) =
     \<lparr>reject = rs (reject acls), accept = rs (snd (ar rule (accept acls))),
      observe = rs (observe acls)\<rparr>"
  using assms by (simp add: AddRule_def split_def Let_def)

lemma addRules_accept:
  assumes "\<forall>rule \<in> set rls. Accepted (Action (Policy rule)) \<and>
                              \<not> IsObserveApply (ObserveAction (Policy rule))"
  shows "addRules env rls acls =
     \<lparr>reject = (reverseSort env ^^ length rls) (reject acls),
      accept = foldl (\<lambda>a rule. reverseSort env (snd (addRule env rule a))) (accept acls) rls,
      observe = (reverseSort env ^^ length rls) (observe acls)\<rparr>"
  using assms
proof (induction rls arbitrary: acls)
  case Nil
  show ?case by (simp add: addRules_def)
next
  case (Cons rule rls)
  let ?a1 = "snd (AddRule (addRule env) (reverseSort env) rule acls)"
  have step: "addRules env (rule # rls) acls = addRules env rls ?a1"
    by (simp add: addRules_def)
  from Cons.prems have a1: "?a1 =
     \<lparr>reject = reverseSort env (reject acls),
      accept = reverseSort env (snd (addRule env rule (accept acls))),
      observe = reverseSort env (observe acls)\<rparr>"
    by (simp add: AddRule_accept)
  from Cons.prems have rest: "\<forall>rule \<in> set rls. Accepted (Action (Policy rule)) \<and>
                              \<not> IsObserveApply (ObserveAction (Policy rule))"
    by simp
  show ?case
    unfolding step Cons.IH [OF rest] a1 by (simp add: funpow_swap1)
qed

text \<open>
  C9. A packet from the network with source port 53 whose destination port has a context
  in \<open>dnsmap\<close> is passed on (nil), and it changes nothing but the application ACLs of that
  context. The rules of the response are one rule for every A-record answer whose name is a
  key of the DNS ACLs of the context and every port of the list under that name, with the
  address of the answer, that port, protocol TCP, action Accept, no observation and the
  policy and service id "default". Each of them is handed once, in this order, to
  \<open>addRule\<close> of the accept tier, the three tiers being sorted after each rule; no rule
  goes to the reject or to the observe tier.
\<close>

theorem ProcessNetworkUDPPacket_dns_response:
  assumes "SourcePort p = 53"
    and "dnsmap d (DestinationPort p) = Some ctx"
    and "rls = dnsRules_spec env (DNSACLs (puContexts d ctx))
                 (DecodeFromBytes env (GetUDPData (pk env) p))"
  shows "ProcessNetworkUDPPacket env p d =
     (Returns None,
      d\<lparr>puContexts := (puContexts d)(ctx := (puContexts d ctx)
           \<lparr>ApplicationACLs :=
              \<lparr>reject = (reverseSort env ^^ length rls) (reject (ApplicationACLs (puContexts d ctx))),
               accept = foldl (\<lambda>a rule. reverseSort env (snd (addRule env rule a)))
                          (accept (ApplicationACLs (puContexts d ctx))) rls,
               observe = (reverseSort env ^^ length rls)
                           (observe (ApplicationACLs (puContexts d ctx)))\<rparr>\<rparr>)\<rparr>)"
proof -
  have "\<forall>rule \<in> set rls. Accepted (Action (Policy rule)) \<and>
                            \<not> IsObserveApply (ObserveAction (Policy rule))"
    unfolding assms(3) using dnsRules_spec_policy by blast
  from addRules_accept [OF this, of env "ApplicationACLs (puContexts d ctx)"] assms
  show ?thesis
    by (simp add: ProcessNetworkUDPPacket_def processDNSTraffic_def Let_def
        addAnswerRules_addRules)
qed

theorem ProcessNetworkUDPPacket_dns_response_witness:
  "SourcePort (examplePacket 0 53 5000) = 53 \<and>
   dnsmap (exampleDatapath UDPSynSend) (DestinationPort (examplePacket 0 53 5000)) = Some 0 \<and>
   dnsRules_spec dnsEnv (DNSACLs (puContexts (exampleDatapath UDPSynSend) 0))
       (DecodeFromBytes dnsEnv (GetUDPData (pk dnsEnv) (examplePacket 0 53 5000)))
     = [dnsRule ''10.1.2.3'' ''443'', dnsRule ''10.1.2.3'' ''8443''] \<and>
   ApplicationACLs (puContexts (exampleDatapath UDPSynSend) 0)
     = \<lparr>reject = [], accept = [], observe = []\<rparr> \<and>
   fst (ProcessNetworkUDPPacket dnsEnv (examplePacket 0 53 5000) (exampleDatapath UDPSynSend))
     = Returns None \<and>
   ApplicationACLs (puContexts (snd (ProcessNetworkUDPPacket dnsEnv (examplePacket 0 53 5000)
                                       (exampleDatapath UDPSynSend))) 0)
     = \<lparr>reject = [],
        accept = [\<lparr>mask = 0xFFFFFFFF,
                    rules = [0x0A010203 \<mapsto> [\<lparr>minPort = 443, maxPort = 443,
                                                paPolicy = Policy (dnsRule ''10.1.2.3'' ''443'')\<rparr>]]\<rparr>,
                  \<lparr>mask = 0xFFFFFFFF,
                    rules = [0x0A010203 \<mapsto> [\<lparr>minPort = 8443, maxPort = 8443,
                                                paPolicy = Policy (dnsRule ''10.1.2.3'' ''8443'')\<rparr>]]\<rparr>],
        observe = []\<rparr> \<and>
   GetMatchingAction (ApplicationACLs (puContexts (exampleDatapath UDPSynSend) 0)) 0x0A010203 8443
     = (Some catchAllPolicy, Some catchAllPolicy, Some ''no match'') \<and>
   GetMatchingAction
       (ApplicationACLs (puContexts (snd (ProcessNetworkUDPPacket dnsEnv (examplePacket 0 53 5000)
                                            (exampleDatapath UDPSynSend))) 0)) 0x0A010203 8443
     = (Some (Policy (dnsRule ''10.1.2.3'' ''8443'')), Some (Policy (dnsRule ''10.1.2.3'' ''8443'')),
        None)"
proof -
  let ?p = "examplePacket 0 53 5000"
  let ?d = "exampleDatapath UDPSynSend"
  let ?rls = "[dnsRule ''10.1.2.3'' ''443'', dnsRule ''10.1.2.3'' ''8443'']"
  let ?r = "ProcessNetworkUDPPacket dnsEnv ?p ?d"
  let ?after = "\<lparr>reject = [],
        accept = [\<lparr>mask = 0xFFFFFFFF,
                    rules = [0x0A010203 \<mapsto> [\<lparr>minPort = 443, maxPort = 443,
                                                paPolicy = Policy (dnsRule ''10.1.2.3'' ''443'')\<rparr>]]\<rparr>,
                  \<lparr>mask = 0xFFFFFFFF,
                    rules = [0x0A010203 \<mapsto> [\<lparr>minPort = 8443, maxPort = 8443,
                                                paPolicy = Policy (dnsRule ''10.1.2.3'' ''8443'')\<rparr>]]\<rparr>],
        observe = []\<rparr>"
  have sp: "SourcePort ?p = 53"
    by (simp add: examplePacket_def)
  have dm: "dnsmap ?d (DestinationPort ?p) = Some 0"
    by (simp add: examplePacket_def exampleDatapath_def)
  have rules: "?rls = dnsRules_spec dnsEnv (DNSACLs (puContexts ?d 0))
       (DecodeFromBytes dnsEnv (GetUDPData (pk dnsEnv) ?p))"
    by (simp add: dnsRules_spec_def dnsRule_def dnsEnv_def exampleEnv_def exampleDatapath_def
        emptyDatapath_def exampleContext_def)
  have before: "ApplicationACLs (puContexts ?d 0) = \<lparr>reject = [], accept = [], observe = []\<rparr>"
    by (simp add: exampleDatapath_def emptyDatapath_def exampleContext_def)
  have rs: "reverseSort dnsEnv = (\<lambda>a. a)" and ar: "addRule dnsEnv = exampleAddRule"
    by (simp_all add: dnsEnv_def exampleEnv_def)
  have id: "((\<lambda>a::acl. a) ^^ n) x = x" for n x
    by (induction n) simp_all
  have acc: "foldl (\<lambda>a rule. snd (exampleAddRule rule a)) [] ?rls = accept ?after"
    by (simp add: exampleAddRule_def dnsRule_def decimal_def)
  from ProcessNetworkUDPPacket_dns_response [where env = dnsEnv, OF sp dm rules]
  have res: "?r = (Returns None, ?d\<lparr>puContexts := (puContexts ?d)(0 := (puContexts ?d 0)
           \<lparr>ApplicationACLs := ?after\<rparr>)\<rparr>)"
    unfolding before rs ar by (simp only: id acc ACLCache.simps list.size)
  then have 1: "fst ?r = Returns None" and 2: "ApplicationACLs (puContexts (snd ?r) 0) = ?after"
    by simp_all
  have 3: "GetMatchingAction (ApplicationACLs (puContexts ?d 0)) 0x0A010203 8443
     = (Some catchAllPolicy, Some catchAllPolicy, Some ''no match'')"
    unfolding before by (simp add: GetMatchingAction_def)
  have 4: "GetMatchingAction (ApplicationACLs (puContexts (snd ?r) 0)) 0x0A010203 8443
     = (Some (Policy (dnsRule ''10.1.2.3'' ''8443'')), Some (Policy (dnsRule ''10.1.2.3'' ''8443'')),
        None)"
    unfolding 2 by (simp add: GetMatchingAction_def dnsRule_def)
  from sp dm rules [symmetric] before 1 2 3 4 show ?thesis by (intro conjI)
qed

section \<open>Properties of the policy database\<close>

lemmas lookup_defs =
  Search_def skipPolicies_def tagSplit_def testPolicyDB_def addPolicies_def testSelectors_def
  AddPolicy_def addClause_def addEqualValue_def addNotEqualValue_def clauseCount_def NewPolicyDB_def
  appEqWebAndenvEqDemo_def policylangNotJava_def dcTagExists_def appEqWebAndEnvEqDemoOrQa_def
  appEqWebAndenvNotDemoOrQA_def envKeyNotExistsAndAppEqWeb_def policyDomainParent_def
  policyDomainFull_def policyEnvDoesNotExist_def vulnTagPolicy_def policyNamespace_def
  appEqWeb_def envEqDemo_def envEqDemoOrQa_def dcKeyExists_def langNotJava_def envNotDemoOrQA_def
  envKeyNotExists_def vulnerKey_def vulnerLowKey_def namespaceKey_def domainParent_def domainFull_def
  GetSlice_def AppendKeyValue_def Let_def





text \<open>The searches of \<open>TestFuncSearch\<close> on key-value tags, with the index each expects.\<close>

lemma TestFuncSearch_vulnerability:
  "fst (Search testPolicyDB (GetSlice [(''vulnerability'', ''high'')])) = 10"
  by (simp add: lookup_defs)

lemma TestFuncSearch_ID:
  "fst (Search testPolicyDB [''1'']) = 6"
  by (simp add: lookup_defs)

lemma TestFuncSearch_namespace_only:
  "Search testPolicyDB (GetSlice [(''namespace'', ''/a/b/c/d''), (''env'', ''privatedemo'')])
     = (- 1, None)"
  by (simp add: lookup_defs)

lemma TestFuncSearch_namespace_and_vulnerability:
  "fst (Search testPolicyDB (GetSlice [(''namespace'', ''/a/b/c/d''), (''vulnerability'', ''low''),
                                       (''env'', ''privatedemo'')])) = 11"
  by (simp add: lookup_defs)

lemma TestFuncSearch_equal:
  "fst (Search testPolicyDB (GetSlice [(''app'', ''web''), (''env'', ''demo'')])) = 1"
  by (simp add: lookup_defs)

lemma TestFuncSearch_not_equal:
  "fst (Search testPolicyDB (GetSlice [(''lang'', ''go''), (''env'', ''demo'')])) = 2"
  by (simp add: lookup_defs)

lemma TestFuncSearch_key_exists:
  "fst (Search testPolicyDB (GetSlice [(''dc'', ''EAST''), (''env'', ''demo'')])) = 3"
  by (simp add: lookup_defs)

lemma TestFuncSearch_or:
  "fst (Search testPolicyDB (GetSlice [(''app'', ''web''), (''env'', ''qa'')])) = 4"
  by (simp add: lookup_defs)

lemma TestFuncSearch_not_or:
  "fst (Search testPolicyDB (GetSlice [(''app'', ''web''), (''env'', ''prod'')])) = 5"
  by (simp add: lookup_defs)

lemma TestFuncSearch_not_or_fails:
  "Search testPolicyDB (GetSlice [(''lang'', ''java''), (''env'', ''demo''), (''app'', ''db'')])
     = (- 1, None)"
  by (simp add: lookup_defs)

lemma TestFuncSearch_no_match:
  "Search testPolicyDB (GetSlice [(''tag'', ''node''), (''env'', ''node'')]) = (- 1, None)"
  by (simp add: lookup_defs)

lemma TestFuncSearch_not_key:
  "fst (Search testPolicyDB (GetSlice [(''app'', ''web'')])) = 6"
  by (simp add: lookup_defs)

lemma TestFuncSearch_prefix:
  "fst (Search testPolicyDB (GetSlice [(''domain'', ''com.example.db'')])) = 7"
  by (simp add: lookup_defs)

lemma TestFuncSearch_part_of_prefix:
  "Search testPolicyDB (GetSlice [(''domain'', ''co''), (''env'', ''node'')]) = (- 1, None)"
  by (simp add: lookup_defs)

lemma TestFuncSearch_default:
  "fst (Search testPolicyDB (GetSlice [(''sometag'', ''nomatch'')])) = 9"
  by (simp add: lookup_defs)



end
